theory Spec2Isabelle
  imports Main
begin

section \<open>Errors, effects and strings\<close>

text \<open>
  A Go \<open>error\<close> value is modelled by its message (\<open>err.Error()\<close>); \<open>nil\<close> is the
  absence of a message. \<open>fmt.Errorf("prefix: %w", err)\<close> yields the message
  \<open>prefix: \<close> followed by the message of \<open>err\<close>.
\<close>

type_synonym error = string

text \<open>
  A call either returns, possibly with an error, or panics. Where a function of the client
  can panic, the failure in the left summand says which: \<open>Error\<close> is a returned error,
  \<open>Panic\<close> is a run-time panic with its message. \<open>returned\<close> lifts the result of a
  function that only returns. \<open>fmt.Errorf("prefix: %w", err)\<close> is reached only when a
  callee returned an error: \<open>wrapf\<close> puts the prefix on a returned error and leaves a
  panic, which is not caught anywhere in the client, as it is.
\<close>

datatype failure = Error error | Panic string

definition returned :: "error + 'a \<Rightarrow> failure + 'a" where
  "returned r = (case r of Inl err \<Rightarrow> Inl (Error err) | Inr x \<Rightarrow> Inr x)"

fun wrapf :: "string \<Rightarrow> failure \<Rightarrow> failure" where
  "wrapf prefix (Error err) = Error (prefix @ err)"
| "wrapf prefix (Panic msg) = Panic msg"

text \<open>
  \<open>strings.LastIndex(s, substr)\<close>: the index of the last occurrence of \<open>substr\<close> in
  \<open>s\<close>, or \<open>-1\<close>. The scan runs from the last possible start index down to \<open>0\<close>.
\<close>

fun lastIndexFrom :: "string \<Rightarrow> string \<Rightarrow> nat \<Rightarrow> int" where
  "lastIndexFrom s substr 0 = (if take (length substr) s = substr then 0 else -1)"
| "lastIndexFrom s substr (Suc i) =
     (if take (length substr) (drop (Suc i) s) = substr then int (Suc i)
      else lastIndexFrom s substr i)"

definition LastIndex :: "string \<Rightarrow> string \<Rightarrow> int" where
  "LastIndex s substr =
     (if length substr > length s then -1
      else lastIndexFrom s substr (length s - length substr))"

section \<open>Data model\<close>

text \<open>
  Conventions of the embedding. A pointer to a struct is modelled by the struct it points
  to, so the values below are the non-nil pointers of the program (the nil pointer to an
  ECDSA private key, on which the signer adapter panics, has a constructor of its own);
  an interface value
  (\<open>crypto.PrivateKey\<close>, \<open>crypto.PublicKey\<close>) is an \<open>option\<close> of a datatype of its
  dynamic types, \<open>None\<close> being the nil interface. A \<open>[]byte\<close> and a \<open>string\<close> are both
  byte sequences. Functional options (\<open>opts ...update.Option\<close>) are applied to an
  empty options struct before anything else happens, so every operation is modelled on
  the resulting options value.
\<close>

type_synonym bytes = string

subsection \<open>Keys\<close>

text \<open>\<open>ecdsa.PublicKey\<close> and \<open>ecdsa.PrivateKey\<close> of the standard library; the curve is a
  field of the key, not part of its Go type.\<close>

record ecdsa_PublicKey =
  Curve :: string
  X :: int
  Y :: int

record ecdsa_PrivateKey =
  PublicKey :: ecdsa_PublicKey
  D :: int

text \<open>The dynamic types a \<open>crypto.PrivateKey\<close> can have: \<open>*ecdsa.PrivateKey\<close> (a
  pointer to a key, or the nil pointer of that type), \<open>ed25519.PrivateKey\<close> (a byte slice
  of any length), or any other type, kept by its name.\<close>

datatype crypto_PrivateKey =
    EcdsaPrivateKey ecdsa_PrivateKey
  | NilEcdsaPrivateKey
  | Ed25519PrivateKey bytes
  | OtherPrivateKey string

datatype crypto_PublicKey =
    EcdsaPublicKey ecdsa_PublicKey
  | Ed25519PublicKey bytes
  | OtherPublicKey string

text \<open>\<open>jws.JWK\<close> of the Sidetree core library: key type, curve and coordinates.\<close>

datatype jws_JWK = JWK string string string string

text \<open>\<open>jose.JSONWebKey\<close>: the key it carries (private or public) and its key id.\<close>

datatype jose_JSONWebKey = JSONWebKey "(crypto_PrivateKey + crypto_PublicKey) option" string

text \<open>
  Modelled from the spec: \<open>doc.PublicKey\<close> is declared in package \<open>pkg/did/doc\<close>, which
  is not among the sources. The spec gives it an identifier, a type tag, the two role
  flags and a value that is either raw key bytes or a JSON Web Key.
\<close>

record doc_PublicKey =
  ID :: string
  Type :: string
  Recovery :: bool
  Update :: bool
  Value :: bytes

text \<open>\<open>did.Service\<close> of the DID framework: identifier, type and endpoint.\<close>

datatype did_Service = Service string string string

text \<open>\<open>doc.Doc\<close>, the document of a recover request.\<close>

record doc_Doc =
  doc_PublicKey :: "doc_PublicKey list"
  doc_Service :: "did_Service list"

subsection \<open>Endpoints and configuration\<close>

text \<open>\<open>models.Endpoint\<close> and \<open>models.SidetreeConfig\<close> are declared in a package that is
  not among the sources; the records have the fields the client reads.\<close>

record Endpoint =
  URL :: string

record SidetreeConfig =
  MultiHashAlgorithm :: nat

subsection \<open>Options\<close>

text \<open>
  The three options structs (\<open>deactivate.Opts\<close>, \<open>update.Opts\<close>, \<open>recovery.Opts\<close>) are
  independent Go structs that repeat field names; their declarations are not among the
  sources, and the fields are those the client reads. They are written here as record
  extensions so that each field keeps its Go name: \<open>deactivate_Opts\<close> has the four
  fields every operation has, \<open>next_Opts\<close> adds the next update key, and the update and
  recovery options extend that.
\<close>

record deactivate_Opts =
  SigningKey :: "crypto_PrivateKey option"
  SigningKeyID :: string
  SidetreeEndpoints :: "Endpoint list"
  RevealValue :: string

record next_Opts = deactivate_Opts +
  NextUpdatePublicKey :: "crypto_PublicKey option"

record update_Opts = next_Opts +
  RemovePublicKeys :: "string list"
  RemoveServices :: "string list"
  AddServices :: "did_Service list"
  AddPublicKeys :: "doc_PublicKey list"

record recovery_Opts = next_Opts +
  NextRecoveryPublicKey :: "crypto_PublicKey option"
  PublicKeys :: "doc_PublicKey list"
  Services :: "did_Service list"

subsection \<open>Signers, patches and request descriptions\<close>

text \<open>
  \<open>ecsigner.New(key, alg, kid)\<close> and \<open>edsigner.New(key, alg, kid)\<close> store their three
  arguments; the signer is modelled by the constructor call that made it.
\<close>

datatype Signer =
    ecsigner_New ecdsa_PrivateKey string string
  | edsigner_New bytes string string

fun algorithm :: "Signer \<Rightarrow> string" where
  "algorithm (ecsigner_New key alg kid) = alg"
| "algorithm (edsigner_New key alg kid) = alg"

text \<open>A \<open>patch.Patch\<close> is opaque to the client: an action name and its JSON content.\<close>

datatype Patch = Patch string string

type_synonym raw_map = "(string \<times> string) list"

record UpdateRequestInfo =
  upd_DidSuffix :: string
  upd_RevealValue :: string
  upd_UpdateCommitment :: string
  upd_UpdateKey :: jws_JWK
  upd_Patches :: "Patch list"
  upd_MultihashCode :: nat
  upd_Signer :: Signer

record DeactivateRequestInfo =
  deact_DidSuffix :: string
  deact_RevealValue :: string
  deact_RecoveryKey :: jws_JWK
  deact_Signer :: Signer

record RecoverRequestInfo =
  rec_DidSuffix :: string
  rec_RevealValue :: string
  rec_OpaqueDocument :: string
  rec_RecoveryCommitment :: string
  rec_UpdateCommitment :: string
  rec_MultihashCode :: nat
  rec_Signer :: Signer
  rec_RecoveryKey :: jws_JWK

subsection \<open>HTTP\<close>

record http_Request =
  req_Method :: string
  req_URL :: string
  req_Header :: "(string \<times> string) list"
  req_Body :: bytes

text \<open>An \<open>http.Response\<close>: the status code, what \<open>ioutil.ReadAll(resp.Body)\<close> returns and
  what \<open>resp.Body.Close()\<close> returns.\<close>

record http_Response =
  StatusCode :: int
  resp_ReadAll :: "error + bytes"
  resp_Close :: "error option"

subsection \<open>Collaborators\<close>

text \<open>
  The functions of other packages that the client calls. None of them is among the
  sources, so each is a parameter of the model: a field of \<open>lib\<close>, named after the Go
  function, returning \<open>Inl\<close> of the error where the Go function returns one.
  \<open>json.Marshal\<close> has one field for each type it is called at.
\<close>

record lib =
  pubkey_GetPublicKeyJWK :: "crypto_PublicKey option \<Rightarrow> error + jws_JWK"
  commitment_GetCommitment :: "jws_JWK \<Rightarrow> nat \<Rightarrow> error + string"
  commitment_GetRevealValue :: "jws_JWK \<Rightarrow> nat \<Rightarrow> error + string"
  json_Marshal_strings :: "string list \<Rightarrow> error + bytes"
  json_Marshal_raw :: "raw_map list \<Rightarrow> error + bytes"
  doc_PopulateRawServices :: "did_Service list \<Rightarrow> raw_map list"
  doc_PopulateRawPublicKeys :: "doc_PublicKey list \<Rightarrow> error + raw_map list"
  patch_NewRemovePublicKeysPatch :: "string \<Rightarrow> error + Patch"
  patch_NewRemoveServiceEndpointsPatch :: "string \<Rightarrow> error + Patch"
  patch_NewAddServiceEndpointsPatch :: "string \<Rightarrow> error + Patch"
  patch_NewAddPublicKeysPatch :: "string \<Rightarrow> error + Patch"
  jose_UnmarshalJSON :: "bytes \<Rightarrow> error + jose_JSONWebKey"
  jose_Public :: "jose_JSONWebKey \<Rightarrow> jose_JSONWebKey"
  doc_GetValueFromJWK :: "doc_PublicKey \<Rightarrow> jose_JSONWebKey \<Rightarrow> error + doc_PublicKey"
  doc_JSONBytes :: "doc_Doc \<Rightarrow> error + bytes"
  client_NewUpdateRequest :: "UpdateRequestInfo \<Rightarrow> error + bytes"
  client_NewDeactivateRequest :: "DeactivateRequestInfo \<Rightarrow> error + bytes"
  client_NewRecoverRequest :: "RecoverRequestInfo \<Rightarrow> error + bytes"
  http_NewRequest :: "string \<Rightarrow> string \<Rightarrow> bytes \<Rightarrow> error + http_Request"

text \<open>
  The \<open>Client\<close> struct: its two services (interfaces in the source), the \<open>Do\<close> method
  of its HTTP client and the authorization token.
\<close>

record Client =
  endpointService_GetEndpoints :: "string \<Rightarrow> error + Endpoint list"
  configService_GetSidetreeConfig :: "string \<Rightarrow> error + SidetreeConfig"
  client_Do :: "http_Request \<Rightarrow> error + http_Response"
  authToken :: string

text \<open>
  What an operation does besides returning: the calls that leave the process and the
  lines it logs, in the order they happen.
\<close>

datatype event =
    GetEndpoints string
  | GetSidetreeConfig string
  | Do http_Request
  | LogError string

section \<open>Unique suffix of a DID\<close>

text \<open>
  \<^verbatim>\<open>
  func getUniqueSuffix(id string) (string, error) {
      p := strings.LastIndex(id, ":")
      if p == -1 {
          return "", fmt.Errorf("unique suffix not provided in id [%s]", id)
      }
      return id[p+1:], nil
  }
  \<close>
\<close>

definition getUniqueSuffix :: "string \<Rightarrow> error + string" where
  "getUniqueSuffix did =
     (let p = LastIndex did '':'' in
      if p = -1 then Inl (''unique suffix not provided in id ['' @ did @ '']'')
      else Inr (drop (nat (p + 1)) did))"

section \<open>Signer adapter\<close>

text \<open>
  \<^verbatim>\<open>
  func getSigner(signingkey crypto.PrivateKey, keyID string) (client.Signer, *jws.JWK, error) {
      switch key := signingkey.(type) {
      case *ecdsa.PrivateKey:
          updateKey, err := pubkey.GetPublicKeyJWK(key.Public())
          if err != nil { return nil, nil, err }
          return ecsigner.New(key, "ES256", keyID), updateKey, nil
      case ed25519.PrivateKey:
          updateKey, err := pubkey.GetPublicKeyJWK(key.Public())
          if err != nil { return nil, nil, err }
          return edsigner.New(key, "EdDSA", keyID), updateKey, nil
      default:
          return nil, nil, fmt.Errorf("key not supported")
      }
  }
  \<close>
  \<open>key.Public()\<close> of an ECDSA key is the address of its embedded public key, and
  panics on the nil pointer. Of an Ed25519 key it is, in the standard library,
  \<^verbatim>\<open>
  func (priv PrivateKey) Public() crypto.PublicKey {
      publicKey := make([]byte, PublicKeySize)
      copy(publicKey, priv[32:])
      return PublicKey(publicKey)
  }
  \<close>
  which panics when the key has fewer than 32 bytes and otherwise yields 32 bytes: the
  bytes of the key from index 32 on, cut or filled with zero bytes to 32. The nil
  interface takes the default branch of the type switch.
\<close>

definition ed25519_Public :: "bytes \<Rightarrow> string + bytes" where
  "ed25519_Public priv =
     (if length priv < 32 then Inl ''runtime error: slice bounds out of range''
      else Inr (take 32 (drop 32 priv) @
                replicate (32 - length (take 32 (drop 32 priv))) (CHR 0x00)))"

fun getSigner :: "lib \<Rightarrow> crypto_PrivateKey option \<Rightarrow> string \<Rightarrow> failure + (Signer \<times> jws_JWK)" where
  "getSigner l (Some (EcdsaPrivateKey key)) keyID =
     (case pubkey_GetPublicKeyJWK l (Some (EcdsaPublicKey (PublicKey key))) of
        Inl err \<Rightarrow> Inl (Error err)
      | Inr updateKey \<Rightarrow> Inr (ecsigner_New key ''ES256'' keyID, updateKey))"
| "getSigner l (Some NilEcdsaPrivateKey) keyID =
     Inl (Panic ''runtime error: invalid memory address or nil pointer dereference'')"
| "getSigner l (Some (Ed25519PrivateKey key)) keyID =
     (case ed25519_Public key of
        Inl msg \<Rightarrow> Inl (Panic msg)
      | Inr pub \<Rightarrow>
          (case pubkey_GetPublicKeyJWK l (Some (Ed25519PublicKey pub)) of
             Inl err \<Rightarrow> Inl (Error err)
           | Inr updateKey \<Rightarrow> Inr (edsigner_New key ''EdDSA'' keyID, updateKey)))"
| "getSigner l (Some (OtherPrivateKey ty)) keyID = Inl (Error ''key not supported'')"
| "getSigner l None keyID = Inl (Error ''key not supported'')"

section \<open>Default reveal value\<close>

text \<open>
  \<^verbatim>\<open>
  func defaultRevealValue(jwk *jws.JWK, multihashCode uint) string {
      revealValue, err := commitment.GetRevealValue(jwk, multihashCode)
      if err != nil {
          log.Errorf("Failed to default reveal value: %v", err)
          return ""
      }
      return revealValue
  }
  \<close>
  The function returns a string and nothing else; the second component of the model's
  result is what it logs.
\<close>

definition defaultRevealValue :: "lib \<Rightarrow> jws_JWK \<Rightarrow> nat \<Rightarrow> string \<times> event list" where
  "defaultRevealValue l jwk multihashCode =
     (case commitment_GetRevealValue l jwk multihashCode of
        Inl err \<Rightarrow> ('''', [LogError (''Failed to default reveal value: '' @ err)])
      | Inr revealValue \<Rightarrow> (revealValue, []))"

section \<open>Patch assembler\<close>

definition createRemovePublicKeysPatch :: "lib \<Rightarrow> update_Opts \<Rightarrow> error + Patch" where
  "createRemovePublicKeysPatch l updateDIDOpts =
     (case json_Marshal_strings l (RemovePublicKeys updateDIDOpts) of
        Inl err \<Rightarrow> Inl err
      | Inr removePubKeys \<Rightarrow> patch_NewRemovePublicKeysPatch l removePubKeys)"

definition createRemoveServicesPatch :: "lib \<Rightarrow> update_Opts \<Rightarrow> error + Patch" where
  "createRemoveServicesPatch l updateDIDOpts =
     (case json_Marshal_strings l (RemoveServices updateDIDOpts) of
        Inl err \<Rightarrow> Inl err
      | Inr removeServices \<Rightarrow> patch_NewRemoveServiceEndpointsPatch l removeServices)"

definition createAddServicesPatch :: "lib \<Rightarrow> update_Opts \<Rightarrow> error + Patch" where
  "createAddServicesPatch l updateDIDOpts =
     (case json_Marshal_raw l (doc_PopulateRawServices l (AddServices updateDIDOpts)) of
        Inl err \<Rightarrow> Inl err
      | Inr addServices \<Rightarrow> patch_NewAddServiceEndpointsPatch l addServices)"

definition createAddPublicKeysPatch :: "lib \<Rightarrow> update_Opts \<Rightarrow> error + Patch" where
  "createAddPublicKeysPatch l updateDIDOpts =
     (case doc_PopulateRawPublicKeys l (AddPublicKeys updateDIDOpts) of
        Inl err \<Rightarrow> Inl err
      | Inr rawPublicKeys \<Rightarrow>
          (case json_Marshal_raw l rawPublicKeys of
             Inl err \<Rightarrow> Inl err
           | Inr addPublicKeys \<Rightarrow> patch_NewAddPublicKeysPatch l addPublicKeys))"

text \<open>
  \<open>createUpdatePatches\<close> starts from the nil slice and runs four blocks in a fixed
  order, each of the shape
  \<^verbatim>\<open>
  if len(updateDIDOpts.RemovePublicKeys) != 0 {
      p, err := createRemovePublicKeysPatch(updateDIDOpts)
      if err != nil { return nil, err }
      patches = append(patches, p)
  }
  \<close>
  In the model \<open>patches1\<close>, \<open>patches2\<close>, \<open>patches3\<close> are the values of \<open>patches\<close>
  after the first, second and third block.
\<close>

definition createUpdatePatches :: "lib \<Rightarrow> update_Opts \<Rightarrow> error + Patch list" where
  "createUpdatePatches l updateDIDOpts =
     (case (if length (RemovePublicKeys updateDIDOpts) \<noteq> 0 then
              (case createRemovePublicKeysPatch l updateDIDOpts of
                 Inl err \<Rightarrow> Inl err | Inr p \<Rightarrow> Inr ([] @ [p]))
            else Inr []) of
        Inl err \<Rightarrow> Inl err
      | Inr patches1 \<Rightarrow>
     (case (if length (RemoveServices updateDIDOpts) \<noteq> 0 then
              (case createRemoveServicesPatch l updateDIDOpts of
                 Inl err \<Rightarrow> Inl err | Inr p \<Rightarrow> Inr (patches1 @ [p]))
            else Inr patches1) of
        Inl err \<Rightarrow> Inl err
      | Inr patches2 \<Rightarrow>
     (case (if length (AddServices updateDIDOpts) \<noteq> 0 then
              (case createAddServicesPatch l updateDIDOpts of
                 Inl err \<Rightarrow> Inl err | Inr p \<Rightarrow> Inr (patches2 @ [p]))
            else Inr patches2) of
        Inl err \<Rightarrow> Inl err
      | Inr patches3 \<Rightarrow>
     (if length (AddPublicKeys updateDIDOpts) \<noteq> 0 then
        (case createAddPublicKeysPatch l updateDIDOpts of
           Inl err \<Rightarrow> Inl err | Inr p \<Rightarrow> Inr (patches3 @ [p]))
      else Inr patches3))))"

section \<open>Endpoint resolution\<close>

text \<open>
  \<^verbatim>\<open>
  func (c *Client) getEndpoint(domain string, sidetreeEndpoints []*models.Endpoint) (string, error) {
      if domain == "" && len(sidetreeEndpoints) == 0 {
          return "", errors.New("domain is empty and sidetree endpoints is empty")
      }
      endpoints := sidetreeEndpoints
      if domain != "" {
          var err error
          endpoints, err = c.endpointService.GetEndpoints(domain)
          if err != nil { return "", fmt.Errorf("failed to get endpoints: %w", err) }
          if len(endpoints) == 0 { return "", errors.New("list of endpoints is empty") }
      }
      return endpoints[0].URL, nil
  }
  \<close>
  \<open>endpoints[0]\<close> is reached only past a check that the list read is not empty, so
  each \<open>! 0\<close> below is within range. The event list records the discovery call.
\<close>

definition getEndpoint :: "Client \<Rightarrow> string \<Rightarrow> Endpoint list \<Rightarrow> (error + string) \<times> event list" where
  "getEndpoint c domain sidetreeEndpoints =
     (if domain = '''' \<and> length sidetreeEndpoints = 0 then
        (Inl ''domain is empty and sidetree endpoints is empty'', [])
      else if domain \<noteq> '''' then
        (case endpointService_GetEndpoints c domain of
           Inl err \<Rightarrow> (Inl (''failed to get endpoints: '' @ err), [GetEndpoints domain])
         | Inr endpoints \<Rightarrow>
             if length endpoints = 0 then
               (Inl ''list of endpoints is empty'', [GetEndpoints domain])
             else (Inr (URL (endpoints ! 0)), [GetEndpoints domain]))
      else (Inr (URL (sidetreeEndpoints ! 0)), []))"

section \<open>Request builders\<close>

text \<open>
  \<^verbatim>\<open>
  func validateRecoverReq(recoverDIDOpts *recovery.Opts) error {
      if recoverDIDOpts.NextRecoveryPublicKey == nil {
          return fmt.Errorf("next recovery public key is required")
      }
      if recoverDIDOpts.NextUpdatePublicKey == nil {
          return fmt.Errorf("next update public key is required")
      }
      if recoverDIDOpts.SigningKey == nil {
          return fmt.Errorf("signing key is required")
      }
      return nil
  }
  \<close>
\<close>

definition validateRecoverReq :: "recovery_Opts \<Rightarrow> error option" where
  "validateRecoverReq recoverDIDOpts =
     (if NextRecoveryPublicKey recoverDIDOpts = None then
        Some ''next recovery public key is required''
      else if NextUpdatePublicKey recoverDIDOpts = None then
        Some ''next update public key is required''
      else if SigningKey recoverDIDOpts = None then
        Some ''signing key is required''
      else None)"

text \<open>
  \<^verbatim>\<open>
  func unwrapPubKeyJWK(key doc.PublicKey) (*doc.PublicKey, error) {
      out := key
      var jwk jose.JSONWebKey
      // skip those that don't parse - expect them to be binary keys instead of JWKs
      err := jwk.UnmarshalJSON(out.Value)
      if err == nil {
          pub := jwk.Public()
          err = out.GetValueFromJWK(&pub)
          if err != nil { return nil, err }
      }
      return &out, nil
  }
  \<close>
  \<open>GetValueFromJWK\<close> updates \<open>out\<close> in place; \<open>doc_GetValueFromJWK\<close> returns the
  updated key.
\<close>

definition unwrapPubKeyJWK :: "lib \<Rightarrow> doc_PublicKey \<Rightarrow> error + doc_PublicKey" where
  "unwrapPubKeyJWK l key =
     (case jose_UnmarshalJSON l (Value key) of
        Inl err \<Rightarrow> Inr key
      | Inr jwk \<Rightarrow>
          (case doc_GetValueFromJWK l key (jose_Public l jwk) of
             Inl err \<Rightarrow> Inl err
           | Inr out \<Rightarrow> Inr out))"

text \<open>The loop of \<open>buildRecoverRequest\<close> over the supplied keys; \<open>parsedKeys\<close> is its
  accumulator, and an error leaves the loop and the builder.\<close>

fun unwrapKeys :: "lib \<Rightarrow> doc_PublicKey list \<Rightarrow> doc_PublicKey list \<Rightarrow> error + doc_PublicKey list" where
  "unwrapKeys l [] parsedKeys = Inr parsedKeys"
| "unwrapKeys l (key # publicKeys) parsedKeys =
     (case unwrapPubKeyJWK l key of
        Inl err \<Rightarrow> Inl err
      | Inr parsedKey \<Rightarrow> unwrapKeys l publicKeys (parsedKeys @ [parsedKey]))"

definition getCommitment :: "lib \<Rightarrow> SidetreeConfig \<Rightarrow> recovery_Opts \<Rightarrow> error + (string \<times> string)" where
  "getCommitment l sidetreeConfig recoverDIDOpts =
     (case pubkey_GetPublicKeyJWK l (NextRecoveryPublicKey recoverDIDOpts) of
        Inl err \<Rightarrow> Inl (''failed to get next recovery key : '' @ err)
      | Inr nextRecoveryKey \<Rightarrow>
     (case pubkey_GetPublicKeyJWK l (NextUpdatePublicKey recoverDIDOpts) of
        Inl err \<Rightarrow> Inl (''failed to get next update key : '' @ err)
      | Inr nextUpdateKey \<Rightarrow>
     (case commitment_GetCommitment l nextRecoveryKey (MultiHashAlgorithm sidetreeConfig) of
        Inl err \<Rightarrow> Inl err
      | Inr nextRecoveryCommitment \<Rightarrow>
     (case commitment_GetCommitment l nextUpdateKey (MultiHashAlgorithm sidetreeConfig) of
        Inl err \<Rightarrow> Inl err
      | Inr nextUpdateCommitment \<Rightarrow> Inr (nextRecoveryCommitment, nextUpdateCommitment)))))"

text \<open>
  The three builders, statement by statement as in the source. Each returns the
  serialized request or the failure (a returned error, or the panic of \<open>getSigner\<close>),
  and the lines logged on the way (only \<open>defaultRevealValue\<close> logs).
\<close>

definition buildUpdateRequest ::
  "lib \<Rightarrow> string \<Rightarrow> SidetreeConfig \<Rightarrow> update_Opts \<Rightarrow> (failure + bytes) \<times> event list" where
  "buildUpdateRequest l did sidetreeConfig updateDIDOpts =
     (case pubkey_GetPublicKeyJWK l (NextUpdatePublicKey updateDIDOpts) of
        Inl err \<Rightarrow> (Inl (Error (''failed to get next update key : '' @ err)), [])
      | Inr nextUpdateKey \<Rightarrow>
     (case commitment_GetCommitment l nextUpdateKey (MultiHashAlgorithm sidetreeConfig) of
        Inl err \<Rightarrow> (Inl (Error err), [])
      | Inr nextUpdateCommitment \<Rightarrow>
     (case getSigner l (SigningKey updateDIDOpts) (SigningKeyID updateDIDOpts) of
        Inl failed \<Rightarrow> (Inl failed, [])
      | Inr (signer, updateKey) \<Rightarrow>
     (case createUpdatePatches l updateDIDOpts of
        Inl err \<Rightarrow> (Inl (Error err), [])
      | Inr patches \<Rightarrow>
     (case getUniqueSuffix did of
        Inl err \<Rightarrow> (Inl (Error err), [])
      | Inr didSuffix \<Rightarrow>
     (let (revealValue, logged) =
            (if RevealValue updateDIDOpts = '''' then
               defaultRevealValue l updateKey (MultiHashAlgorithm sidetreeConfig)
             else (RevealValue updateDIDOpts, []))
      in (returned (client_NewUpdateRequest l
            \<lparr>upd_DidSuffix = didSuffix,
             upd_RevealValue = revealValue,
             upd_UpdateCommitment = nextUpdateCommitment,
             upd_UpdateKey = updateKey,
             upd_Patches = patches,
             upd_MultihashCode = MultiHashAlgorithm sidetreeConfig,
             upd_Signer = signer\<rparr>), logged)))))))"

definition buildDeactivateRequest ::
  "lib \<Rightarrow> string \<Rightarrow> SidetreeConfig \<Rightarrow> deactivate_Opts \<Rightarrow> (failure + bytes) \<times> event list" where
  "buildDeactivateRequest l did sidetreeConfig deactivateDIDOpts =
     (case getSigner l (SigningKey deactivateDIDOpts) (SigningKeyID deactivateDIDOpts) of
        Inl failed \<Rightarrow> (Inl failed, [])
      | Inr (signer, publicKey) \<Rightarrow>
     (case getUniqueSuffix did of
        Inl err \<Rightarrow> (Inl (Error err), [])
      | Inr didSuffix \<Rightarrow>
     (let (revealValue, logged) =
            (if RevealValue deactivateDIDOpts = '''' then
               defaultRevealValue l publicKey (MultiHashAlgorithm sidetreeConfig)
             else (RevealValue deactivateDIDOpts, []))
      in (returned (client_NewDeactivateRequest l
            \<lparr>deact_DidSuffix = didSuffix,
             deact_RevealValue = revealValue,
             deact_RecoveryKey = publicKey,
             deact_Signer = signer\<rparr>), logged))))"

definition buildRecoverRequest ::
  "lib \<Rightarrow> string \<Rightarrow> SidetreeConfig \<Rightarrow> recovery_Opts \<Rightarrow> (failure + bytes) \<times> event list" where
  "buildRecoverRequest l did sidetreeConfig recoverDIDOpts =
     (case unwrapKeys l (PublicKeys recoverDIDOpts) [] of
        Inl err \<Rightarrow> (Inl (Error err), [])
      | Inr parsedKeys \<Rightarrow>
     (case doc_JSONBytes l
             \<lparr>doc_PublicKey = parsedKeys, doc_Service = Services recoverDIDOpts\<rparr> of
        Inl err \<Rightarrow> (Inl (Error (''failed to get document bytes : '' @ err)), [])
      | Inr docBytes \<Rightarrow>
     (case getCommitment l sidetreeConfig recoverDIDOpts of
        Inl err \<Rightarrow> (Inl (Error err), [])
      | Inr (nextRecoveryCommitment, nextUpdateCommitment) \<Rightarrow>
     (case getSigner l (SigningKey recoverDIDOpts) (SigningKeyID recoverDIDOpts) of
        Inl failed \<Rightarrow> (Inl failed, [])
      | Inr (signer, recoveryKey) \<Rightarrow>
     (case getUniqueSuffix did of
        Inl err \<Rightarrow> (Inl (Error err), [])
      | Inr didSuffix \<Rightarrow>
     (let (revealValue, logged) =
            (if RevealValue recoverDIDOpts = '''' then
               defaultRevealValue l recoveryKey (MultiHashAlgorithm sidetreeConfig)
             else (RevealValue recoverDIDOpts, []))
      in (case client_NewRecoverRequest l
                 \<lparr>rec_DidSuffix = didSuffix,
                  rec_RevealValue = revealValue,
                  rec_OpaqueDocument = docBytes,
                  rec_RecoveryCommitment = nextRecoveryCommitment,
                  rec_UpdateCommitment = nextUpdateCommitment,
                  rec_MultihashCode = MultiHashAlgorithm sidetreeConfig,
                  rec_Signer = signer,
                  rec_RecoveryKey = recoveryKey\<rparr> of
            Inl err \<Rightarrow>
              (Inl (Error (''failed to create sidetree request: '' @ err)), logged)
          | Inr req \<Rightarrow> (Inr req, logged))))))))"

section \<open>Transport\<close>

text \<open>Decimal rendering of an integer, as the verb \<open>%d\<close> of \<open>fmt\<close> prints it.\<close>

fun showNat :: "nat \<Rightarrow> string" where
  "showNat n =
     (if n < 10 then [''0123456789'' ! n]
      else showNat (n div 10) @ [''0123456789'' ! (n mod 10)])"

definition showInt :: "int \<Rightarrow> string" where
  "showInt i = (if i < 0 then ''-'' @ showNat (nat (- i)) else showNat (nat i))"

text \<open>\<open>Header.Set\<close> replaces the values of a key, \<open>Header.Add\<close> appends one.\<close>

definition header_Set :: "string \<Rightarrow> string \<Rightarrow> (string \<times> string) list \<Rightarrow> (string \<times> string) list" where
  "header_Set k v h = filter (\<lambda>(k', _). k' \<noteq> k) h @ [(k, v)]"

definition header_Add :: "string \<Rightarrow> string \<Rightarrow> (string \<times> string) list \<Rightarrow> (string \<times> string) list" where
  "header_Add k v h = h @ [(k, v)]"

text \<open>
  \<^verbatim>\<open>
  func closeResponseBody(respBody io.Closer) {
      e := respBody.Close()
      if e != nil { log.Errorf("Failed to close response body: %v", e) }
  }
  \<close>
\<close>

definition closeResponseBody :: "http_Response \<Rightarrow> event list" where
  "closeResponseBody resp =
     (case resp_Close resp of
        Some e \<Rightarrow> [LogError (''Failed to close response body: '' @ e)]
      | None \<Rightarrow> [])"

text \<open>
  \<^verbatim>\<open>
  func (c *Client) sendRequest(req []byte, endpointURL string) ([]byte, error) {
      httpReq, err := http.NewRequest(http.MethodPost, endpointURL+"/operations", bytes.NewReader(req))
      if err != nil { return nil, fmt.Errorf("failed to create http request: %w", err) }
      httpReq.Header.Set("Content-Type", "application/json")
      if c.authToken != "" { httpReq.Header.Add("Authorization", c.authToken) }
      resp, err := c.client.Do(httpReq)
      if err != nil { return nil, fmt.Errorf("failed to send request: %w", err) }
      defer closeResponseBody(resp.Body)
      responseBytes, err := ioutil.ReadAll(resp.Body)
      if err != nil { return nil, fmt.Errorf("failed to read response : %s", err) }
      if resp.StatusCode != http.StatusOK {
          return nil, fmt.Errorf("got unexpected response from %s status '%d' body %s",
              endpointURL, resp.StatusCode, responseBytes)
      }
      return responseBytes, nil
  }
  \<close>
  The deferred close runs when the function returns, after the request was sent.
\<close>

definition sendRequest :: "lib \<Rightarrow> Client \<Rightarrow> bytes \<Rightarrow> string \<Rightarrow> (error + bytes) \<times> event list" where
  "sendRequest l c req endpointURL =
     (case http_NewRequest l ''POST'' (endpointURL @ ''/operations'') req of
        Inl err \<Rightarrow> (Inl (''failed to create http request: '' @ err), [])
      | Inr httpReq0 \<Rightarrow>
     (let httpReq1 =
            httpReq0\<lparr>req_Header :=
              header_Set ''Content-Type'' ''application/json'' (req_Header httpReq0)\<rparr>;
          httpReq =
            (if authToken c \<noteq> '''' then
               httpReq1\<lparr>req_Header :=
                 header_Add ''Authorization'' (authToken c) (req_Header httpReq1)\<rparr>
             else httpReq1)
      in (case client_Do c httpReq of
            Inl err \<Rightarrow> (Inl (''failed to send request: '' @ err), [Do httpReq])
          | Inr resp \<Rightarrow>
              (case resp_ReadAll resp of
                 Inl err \<Rightarrow>
                   (Inl (''failed to read response : '' @ err),
                    Do httpReq # closeResponseBody resp)
               | Inr responseBytes \<Rightarrow>
                   if StatusCode resp \<noteq> 200 then
                     (Inl (''got unexpected response from '' @ endpointURL @ '' status '' @
                           [CHR 0x27] @ showInt (StatusCode resp) @ [CHR 0x27] @
                           '' body '' @ responseBytes),
                      Do httpReq # closeResponseBody resp)
                   else (Inr responseBytes, Do httpReq # closeResponseBody resp)))))"

section \<open>The operations of the client\<close>

text \<open>
  Each operation yields how it ended (\<open>None\<close> when it returned \<open>nil\<close>, \<open>Some\<close> of the
  returned error or of the panic that ended it) and the events of the call in order. The
  checks on the options come first, as in the source:
  \<^verbatim>\<open>
  if updateDIDOpts.SigningKey == nil {
      return fmt.Errorf("signing public key is required")
  }
  if updateDIDOpts.NextUpdatePublicKey == nil {
      return fmt.Errorf("next update public key is required")
  }
  sidetreeEndpoint, err := c.getEndpoint(domain, updateDIDOpts.SidetreeEndpoints)
  if err != nil { return err }
  sidetreeConfig, err := c.configService.GetSidetreeConfig(sidetreeEndpoint)
  if err != nil { return err }
  req, err := c.buildUpdateRequest(did, sidetreeConfig, updateDIDOpts)
  if err != nil { return fmt.Errorf("failed to build update request: %w", err) }
  _, err = c.sendRequest(req, sidetreeEndpoint)
  if err != nil { return fmt.Errorf("failed to send create sidetree request: %w", err) }
  return nil
  \<close>
\<close>

definition UpdateDID ::
  "lib \<Rightarrow> Client \<Rightarrow> string \<Rightarrow> string \<Rightarrow> update_Opts \<Rightarrow> failure option \<times> event list" where
  "UpdateDID l c did domain updateDIDOpts =
     (if SigningKey updateDIDOpts = None then
        (Some (Error ''signing public key is required''), [])
      else if NextUpdatePublicKey updateDIDOpts = None then
        (Some (Error ''next update public key is required''), [])
      else
     (case getEndpoint c domain (SidetreeEndpoints updateDIDOpts) of
        (Inl err, ev1) \<Rightarrow> (Some (Error err), ev1)
      | (Inr sidetreeEndpoint, ev1) \<Rightarrow>
     (case configService_GetSidetreeConfig c sidetreeEndpoint of
        Inl err \<Rightarrow> (Some (Error err), ev1 @ [GetSidetreeConfig sidetreeEndpoint])
      | Inr sidetreeConfig \<Rightarrow>
     (case buildUpdateRequest l did sidetreeConfig updateDIDOpts of
        (Inl failed, ev2) \<Rightarrow>
          (Some (wrapf ''failed to build update request: '' failed),
           ev1 @ [GetSidetreeConfig sidetreeEndpoint] @ ev2)
      | (Inr req, ev2) \<Rightarrow>
     (case sendRequest l c req sidetreeEndpoint of
        (Inl err, ev3) \<Rightarrow>
          (Some (Error (''failed to send create sidetree request: '' @ err)),
           ev1 @ [GetSidetreeConfig sidetreeEndpoint] @ ev2 @ ev3)
      | (Inr responseBytes, ev3) \<Rightarrow>
          (None, ev1 @ [GetSidetreeConfig sidetreeEndpoint] @ ev2 @ ev3))))))"

definition RecoverDID ::
  "lib \<Rightarrow> Client \<Rightarrow> string \<Rightarrow> string \<Rightarrow> recovery_Opts \<Rightarrow> failure option \<times> event list" where
  "RecoverDID l c did domain recoverDIDOpts =
     (case validateRecoverReq recoverDIDOpts of
        Some err \<Rightarrow> (Some (Error err), [])
      | None \<Rightarrow>
     (case getEndpoint c domain (SidetreeEndpoints recoverDIDOpts) of
        (Inl err, ev1) \<Rightarrow> (Some (Error err), ev1)
      | (Inr sidetreeEndpoint, ev1) \<Rightarrow>
     (case configService_GetSidetreeConfig c sidetreeEndpoint of
        Inl err \<Rightarrow> (Some (Error err), ev1 @ [GetSidetreeConfig sidetreeEndpoint])
      | Inr sidetreeConfig \<Rightarrow>
     (case buildRecoverRequest l did sidetreeConfig recoverDIDOpts of
        (Inl failed, ev2) \<Rightarrow>
          (Some (wrapf ''failed to build sidetree request: '' failed),
           ev1 @ [GetSidetreeConfig sidetreeEndpoint] @ ev2)
      | (Inr req, ev2) \<Rightarrow>
     (case sendRequest l c req sidetreeEndpoint of
        (Inl err, ev3) \<Rightarrow>
          (Some (Error (''failed to send recover sidetree request: '' @ err)),
           ev1 @ [GetSidetreeConfig sidetreeEndpoint] @ ev2 @ ev3)
      | (Inr responseBytes, ev3) \<Rightarrow>
          (None, ev1 @ [GetSidetreeConfig sidetreeEndpoint] @ ev2 @ ev3))))))"

definition DeactivateDID ::
  "lib \<Rightarrow> Client \<Rightarrow> string \<Rightarrow> string \<Rightarrow> deactivate_Opts \<Rightarrow> failure option \<times> event list" where
  "DeactivateDID l c did domain deactivateDIDOpts =
     (if SigningKey deactivateDIDOpts = None then
        (Some (Error ''signing key is required''), [])
      else
     (case getEndpoint c domain (SidetreeEndpoints deactivateDIDOpts) of
        (Inl err, ev1) \<Rightarrow> (Some (Error err), ev1)
      | (Inr sidetreeEndpoint, ev1) \<Rightarrow>
     (case configService_GetSidetreeConfig c sidetreeEndpoint of
        Inl err \<Rightarrow> (Some (Error err), ev1 @ [GetSidetreeConfig sidetreeEndpoint])
      | Inr sidetreeConfig \<Rightarrow>
     (case buildDeactivateRequest l did sidetreeConfig deactivateDIDOpts of
        (Inl failed, ev2) \<Rightarrow>
          (Some (wrapf ''failed to build sidetree request: '' failed),
           ev1 @ [GetSidetreeConfig sidetreeEndpoint] @ ev2)
      | (Inr req, ev2) \<Rightarrow>
     (case sendRequest l c req sidetreeEndpoint of
        (Inl err, ev3) \<Rightarrow>
          (Some (Error (''failed to send deactivate sidetree request: '' @ err)),
           ev1 @ [GetSidetreeConfig sidetreeEndpoint] @ ev2 @ ev3)
      | (Inr responseBytes, ev3) \<Rightarrow>
          (None, ev1 @ [GetSidetreeConfig sidetreeEndpoint] @ ev2 @ ev3))))))"

section \<open>A concrete instance of the collaborators\<close>

text \<open>
  To evaluate the model at concrete inputs the collaborators need values. \<open>testLib\<close>
  and \<open>testClient\<close> are small stand-ins, and nothing is stated of the real libraries
  through them. The public JWK of a key lists its curve and its coordinates or bytes; the
  hash code \<open>18\<close> (SHA-256) is the only one known; JSON is written without
  quotes, and a byte string parses as a JSON Web Key when it is \<open>{kty:OKP,x:...}\<close> (an
  Ed25519 public key) or \<open>{kty:oct,k:...}\<close> (a symmetric key, which has no public
  part); discovery knows the domains \<open>testnet\<close> and \<open>emptynet\<close>.
\<close>

definition testLib :: lib where
  "testLib =
     \<lparr>pubkey_GetPublicKeyJWK = (\<lambda>k. case k of
          Some (EcdsaPublicKey pub) \<Rightarrow>
            Inr (JWK ''EC'' (Curve pub) (showInt (X pub)) (showInt (Y pub)))
        | Some (Ed25519PublicKey b) \<Rightarrow> Inr (JWK ''OKP'' ''Ed25519'' b '''')
        | Some (OtherPublicKey ty) \<Rightarrow> Inl ''unknown key type''
        | None \<Rightarrow> Inl ''unknown key type''),
      commitment_GetCommitment = (\<lambda>jwk code. case jwk of JWK kty crv x y \<Rightarrow>
          if code = 18 then Inr (''commit-'' @ crv @ ''-'' @ x @ ''-'' @ y)
          else Inl ''algorithm not supported''),
      commitment_GetRevealValue = (\<lambda>jwk code. case jwk of JWK kty crv x y \<Rightarrow>
          if code = 18 then Inr (''reveal-'' @ crv @ ''-'' @ x @ ''-'' @ y)
          else Inl ''algorithm not supported''),
      json_Marshal_strings = (\<lambda>xs. Inr (''['' @ concat (map (\<lambda>x. x @ '','') xs) @ '']'')),
      json_Marshal_raw = (\<lambda>ms. Inr (''['' @ concat (map (\<lambda>m. ''{'' @
          concat (map (\<lambda>(k, v). k @ '':'' @ v @ '','') m) @ ''},'') ms) @ '']'')),
      doc_PopulateRawServices = map (\<lambda>s. case s of Service i t e \<Rightarrow>
          [(''id'', i), (''type'', t), (''serviceEndpoint'', e)]),
      doc_PopulateRawPublicKeys = (\<lambda>ks.
          if \<exists>k \<in> set ks. Type k = ''''
          then Inl (''invalid key type: '')
          else Inr (map (\<lambda>k. [(''id'', ID k), (''type'', Type k), (''value'', Value k)]) ks)),
      patch_NewRemovePublicKeysPatch = (\<lambda>s. Inr (Patch ''remove-public-keys'' s)),
      patch_NewRemoveServiceEndpointsPatch = (\<lambda>s. Inr (Patch ''remove-services'' s)),
      patch_NewAddServiceEndpointsPatch = (\<lambda>s. Inr (Patch ''add-services'' s)),
      patch_NewAddPublicKeysPatch = (\<lambda>s. Inr (Patch ''add-public-keys'' s)),
      jose_UnmarshalJSON = (\<lambda>b.
          if take 11 b = ''{kty:OKP,x:'' \<and> last b = CHR ''}''
          then Inr (JSONWebKey (Some (Inr (Ed25519PublicKey (butlast (drop 11 b))))) '''')
          else if take 11 b = ''{kty:oct,k:'' \<and> last b = CHR ''}''
          then Inr (JSONWebKey (Some (Inl (OtherPrivateKey ''[]byte''))) '''')
          else Inl ''square/go-jose: unknown json web key type''),
      jose_Public = (\<lambda>jwk. case jwk of
          JSONWebKey (Some (Inr pub)) kid \<Rightarrow> jwk
        | JSONWebKey (Some (Inl (EcdsaPrivateKey k))) kid \<Rightarrow>
            JSONWebKey (Some (Inr (EcdsaPublicKey (PublicKey k)))) kid
        | JSONWebKey (Some (Inl NilEcdsaPrivateKey)) kid \<Rightarrow> JSONWebKey None ''''
        | JSONWebKey (Some (Inl (Ed25519PrivateKey k))) kid \<Rightarrow>
            (case ed25519_Public k of
               Inl msg \<Rightarrow> JSONWebKey None ''''
             | Inr pub \<Rightarrow> JSONWebKey (Some (Inr (Ed25519PublicKey pub))) kid)
        | JSONWebKey (Some (Inl (OtherPrivateKey ty))) kid \<Rightarrow> JSONWebKey None ''''
        | JSONWebKey None kid \<Rightarrow> JSONWebKey None ''''),
      doc_GetValueFromJWK = (\<lambda>key jwk. case jwk of
          JSONWebKey (Some (Inr (Ed25519PublicKey b))) kid \<Rightarrow> Inr (key\<lparr>Value := b\<rparr>)
        | JSONWebKey (Some (Inr (EcdsaPublicKey pub))) kid \<Rightarrow> Inl ''unsupported key type''
        | JSONWebKey (Some (Inr (OtherPublicKey ty))) kid \<Rightarrow> Inl ''unsupported key type''
        | JSONWebKey (Some (Inl priv)) kid \<Rightarrow> Inl ''unsupported key type''
        | JSONWebKey None kid \<Rightarrow> Inl ''unsupported key type''),
      doc_JSONBytes = (\<lambda>d. Inr (concat (map (\<lambda>k. ID k @ ''='' @ Value k @ '';'')
          (doc_PublicKey d)))),
      client_NewUpdateRequest = (\<lambda>info.
          Inr (''update:'' @ upd_DidSuffix info @ '':'' @ upd_RevealValue info)),
      client_NewDeactivateRequest = (\<lambda>info.
          Inr (''deactivate:'' @ deact_DidSuffix info @ '':'' @ deact_RevealValue info)),
      client_NewRecoverRequest = (\<lambda>info.
          Inr (''recover:'' @ rec_DidSuffix info @ '':'' @ rec_RevealValue info @ '':'' @
               rec_OpaqueDocument info)),
      http_NewRequest = (\<lambda>m u b.
          Inr \<lparr>req_Method = m, req_URL = u, req_Header = [], req_Body = b\<rparr>)\<rparr>"

definition testClient :: Client where
  "testClient =
     \<lparr>endpointService_GetEndpoints = (\<lambda>domain.
          if domain = ''testnet'' then Inr [\<lparr>URL = ''https://discovered''\<rparr>]
          else if domain = ''emptynet'' then Inr []
          else Inl ''discovery failed''),
      configService_GetSidetreeConfig = (\<lambda>url. Inr \<lparr>MultiHashAlgorithm = 18\<rparr>),
      client_Do = (\<lambda>r. Inr \<lparr>StatusCode = 200, resp_ReadAll = Inr ''ok'', resp_Close = None\<rparr>),
      authToken = ''''\<rparr>"

definition testEcKey :: ecdsa_PrivateKey where
  "testEcKey = \<lparr>PublicKey = \<lparr>Curve = ''P-256'', X = 7, Y = 9\<rparr>, D = 5\<rparr>"

definition testConfig :: SidetreeConfig where
  "testConfig = \<lparr>MultiHashAlgorithm = 18\<rparr>"

definition testDeactivateOpts :: deactivate_Opts where
  "testDeactivateOpts =
     \<lparr>SigningKey = Some (EcdsaPrivateKey testEcKey), SigningKeyID = ''key1'',
      SidetreeEndpoints = [\<lparr>URL = ''https://explicit''\<rparr>], RevealValue = ''''\<rparr>"

definition testUpdateOpts :: update_Opts where
  "testUpdateOpts =
     \<lparr>SigningKey = Some (EcdsaPrivateKey testEcKey), SigningKeyID = ''key1'',
      SidetreeEndpoints = [\<lparr>URL = ''https://explicit''\<rparr>], RevealValue = '''',
      NextUpdatePublicKey = Some (Ed25519PublicKey ''nextupdate''),
      RemovePublicKeys = [''key2''], RemoveServices = [],
      AddServices = [Service ''svc1'' ''hub'' ''https://hub''], AddPublicKeys = []\<rparr>"

definition testRecoverOpts :: recovery_Opts where
  "testRecoverOpts =
     \<lparr>SigningKey = Some (EcdsaPrivateKey testEcKey), SigningKeyID = ''key1'',
      SidetreeEndpoints = [\<lparr>URL = ''https://explicit''\<rparr>], RevealValue = '''',
      NextUpdatePublicKey = Some (Ed25519PublicKey ''nextupdate''),
      NextRecoveryPublicKey = Some (Ed25519PublicKey ''nextrecovery''),
      PublicKeys =
        [\<lparr>ID = ''k1'', Type = ''JwsVerificationKey2020'', Recovery = False, Update = False,
           Value = ''{kty:OKP,x:abc}''\<rparr>,
         \<lparr>ID = ''k2'', Type = ''Ed25519VerificationKey2018'', Recovery = False, Update = False,
           Value = ''rawbytes''\<rparr>],
      Services = []\<rparr>"

section \<open>Properties\<close>

lemma lastIndexFrom_absent:
  "c \<notin> set s \<Longrightarrow> lastIndexFrom s [c] i = -1"
proof (induction i)
  case 0
  then show ?case by (cases s) auto
next
  case (Suc i)
  have "take 1 (drop (Suc i) s) \<noteq> [c]"
  proof
    assume "take 1 (drop (Suc i) s) = [c]"
    then have "c \<in> set (take 1 (drop (Suc i) s))" by simp
    then have "c \<in> set s" by (meson in_set_dropD in_set_takeD)
    with Suc.prems show False by simp
  qed
  with Suc show ?case by simp
qed

lemma lastIndexFrom_last:
  "c \<notin> set suf \<Longrightarrow> k \<le> length suf \<Longrightarrow>
   lastIndexFrom (pre @ c # suf) [c] (length pre + k) = int (length pre)"
proof (induction k)
  case 0
  then show ?case by (cases pre rule: rev_cases) auto
next
  case (Suc k)
  have "take 1 (drop (Suc (length pre + k)) (pre @ c # suf)) = take 1 (drop k suf)"
    by simp
  moreover have "take 1 (drop k suf) \<noteq> [c]"
  proof
    assume "take 1 (drop k suf) = [c]"
    then have "c \<in> set (take 1 (drop k suf))" by simp
    then have "c \<in> set suf" by (meson in_set_dropD in_set_takeD)
    with Suc.prems show False by simp
  qed
  ultimately show ?case using Suc by simp
qed

lemma LastIndex_absent: "c \<notin> set s \<Longrightarrow> LastIndex s [c] = -1"
  by (simp add: LastIndex_def lastIndexFrom_absent)

lemma LastIndex_last:
  "c \<notin> set suf \<Longrightarrow> LastIndex (pre @ c # suf) [c] = int (length pre)"
  using lastIndexFrom_last [of c suf "length suf" pre] by (simp add: LastIndex_def)

lemma getUniqueSuffix_last:
  "CHR '':'' \<notin> set suf \<Longrightarrow> getUniqueSuffix (pre @ CHR '':'' # suf) = Inr suf"
  by (simp add: getUniqueSuffix_def LastIndex_last nat_add_distrib)

lemma getUniqueSuffix_absent:
  "CHR '':'' \<notin> set s \<Longrightarrow>
   getUniqueSuffix s = Inl (''unique suffix not provided in id ['' @ s @ '']'')"
  by (simp add: getUniqueSuffix_def LastIndex_absent)

lemma returned_simps [simp]:
  "returned (Inl err) = Inl (Error err)"
  "returned (Inr x) = Inr x"
  "returned r = Inr x \<longleftrightarrow> r = Inr x"
  "returned r = Inl (Error err) \<longleftrightarrow> r = Inl err"
  by (simp_all add: returned_def split: sum.splits)

subsection \<open>The default reveal value is independent of everything else\<close>

text \<open>
  Replacing the reveal-value derivation of the library changes nothing in the parts of a
  builder that come before the reveal value is chosen.
\<close>

lemma getSigner_GetRevealValue_update [simp]:
  "getSigner (l\<lparr>commitment_GetRevealValue := g\<rparr>) k keyID = getSigner l k keyID"
  by (cases "(l, k, keyID)" rule: getSigner.cases) (simp_all cong: sum.case_cong)

lemma createUpdatePatches_GetRevealValue_update [simp]:
  "createUpdatePatches (l\<lparr>commitment_GetRevealValue := g\<rparr>) opts = createUpdatePatches l opts"
  by (simp add: createUpdatePatches_def createRemovePublicKeysPatch_def
      createRemoveServicesPatch_def createAddServicesPatch_def createAddPublicKeysPatch_def
      cong: sum.case_cong)

lemma unwrapKeys_GetRevealValue_update [simp]:
  "unwrapKeys (l\<lparr>commitment_GetRevealValue := g\<rparr>) ks acc = unwrapKeys l ks acc"
  by (induction ks arbitrary: acc) (simp_all add: unwrapPubKeyJWK_def cong: sum.case_cong)

lemma getCommitment_GetRevealValue_update [simp]:
  "getCommitment (l\<lparr>commitment_GetRevealValue := g\<rparr>) cfg opts = getCommitment l cfg opts"
  by (simp add: getCommitment_def cong: sum.case_cong)

lemma buildUpdateRequest_explicit_reveal:
  "RevealValue opts \<noteq> '''' \<Longrightarrow>
   buildUpdateRequest (l\<lparr>commitment_GetRevealValue := g\<rparr>) did cfg opts =
     buildUpdateRequest l did cfg opts"
  by (simp add: buildUpdateRequest_def cong: sum.case_cong split: prod.splits)

lemma buildUpdateRequest_explicit_reveal_log:
  "RevealValue opts \<noteq> '''' \<Longrightarrow> snd (buildUpdateRequest l did cfg opts) = []"
  by (simp add: buildUpdateRequest_def split: sum.splits prod.splits)

lemma buildDeactivateRequest_explicit_reveal:
  "RevealValue opts \<noteq> '''' \<Longrightarrow>
   buildDeactivateRequest (l\<lparr>commitment_GetRevealValue := g\<rparr>) did cfg opts =
     buildDeactivateRequest l did cfg opts"
  by (simp add: buildDeactivateRequest_def cong: sum.case_cong split: prod.splits)

lemma buildDeactivateRequest_explicit_reveal_log:
  "RevealValue opts \<noteq> '''' \<Longrightarrow> snd (buildDeactivateRequest l did cfg opts) = []"
  by (simp add: buildDeactivateRequest_def split: sum.splits prod.splits)

lemma buildRecoverRequest_explicit_reveal:
  "RevealValue opts \<noteq> '''' \<Longrightarrow>
   buildRecoverRequest (l\<lparr>commitment_GetRevealValue := g\<rparr>) did cfg opts =
     buildRecoverRequest l did cfg opts"
  by (simp add: buildRecoverRequest_def cong: sum.case_cong split: prod.splits)

lemma buildRecoverRequest_explicit_reveal_log:
  "RevealValue opts \<noteq> '''' \<Longrightarrow> snd (buildRecoverRequest l did cfg opts) = []"
  by (simp add: buildRecoverRequest_def split: sum.splits prod.splits)

text \<open>
  C1. \<open>defaultRevealValue\<close> returns a string and never an error. When the derivation of
  the library fails, the string is empty and the failure is logged; when it succeeds, the
  string is the derived reveal value and nothing is logged. In each of the three
  builders the default plays no part when the caller supplied a reveal value: the
  outcome of the builder is the same whatever the derivation would return, and nothing
  is logged.
\<close>

theorem defaultRevealValue_soft_fail:
  "(\<forall>err. commitment_GetRevealValue l jwk code = Inl err \<longrightarrow>
      defaultRevealValue l jwk code =
        ('''', [LogError (''Failed to default reveal value: '' @ err)])) \<and>
   (\<forall>v. commitment_GetRevealValue l jwk code = Inr v \<longrightarrow>
      defaultRevealValue l jwk code = (v, [])) \<and>
   (RevealValue uopts \<noteq> '''' \<longrightarrow>
      buildUpdateRequest (l\<lparr>commitment_GetRevealValue := g\<rparr>) did cfg uopts =
        buildUpdateRequest l did cfg uopts \<and>
      snd (buildUpdateRequest l did cfg uopts) = []) \<and>
   (RevealValue ropts \<noteq> '''' \<longrightarrow>
      buildRecoverRequest (l\<lparr>commitment_GetRevealValue := g\<rparr>) did cfg ropts =
        buildRecoverRequest l did cfg ropts \<and>
      snd (buildRecoverRequest l did cfg ropts) = []) \<and>
   (RevealValue dopts \<noteq> '''' \<longrightarrow>
      buildDeactivateRequest (l\<lparr>commitment_GetRevealValue := g\<rparr>) did cfg dopts =
        buildDeactivateRequest l did cfg dopts \<and>
      snd (buildDeactivateRequest l did cfg dopts) = [])"
proof (intro conjI allI impI)
  fix err assume "commitment_GetRevealValue l jwk code = Inl err"
  then show "defaultRevealValue l jwk code =
      ('''', [LogError (''Failed to default reveal value: '' @ err)])"
    by (simp add: defaultRevealValue_def)
next
  fix v assume "commitment_GetRevealValue l jwk code = Inr v"
  then show "defaultRevealValue l jwk code = (v, [])"
    by (simp add: defaultRevealValue_def)
qed (simp_all add: buildUpdateRequest_explicit_reveal buildDeactivateRequest_explicit_reveal
      buildRecoverRequest_explicit_reveal buildUpdateRequest_explicit_reveal_log
      buildDeactivateRequest_explicit_reveal_log buildRecoverRequest_explicit_reveal_log)

text \<open>
  The theorem at concrete inputs: a hash code the library does not know (soft failure), the
  known one, and the three builders with the explicit reveal value \<open>rv\<close> against a
  library whose derivation always fails.
\<close>

theorem defaultRevealValue_soft_fail_witness:
  "defaultRevealValue testLib (JWK ''EC'' ''P-256'' ''7'' ''9'') 5 =
     ('''', [LogError ''Failed to default reveal value: algorithm not supported'']) \<and>
   defaultRevealValue testLib (JWK ''EC'' ''P-256'' ''7'' ''9'') 18 = (''reveal-P-256-7-9'', []) \<and>
   buildUpdateRequest (testLib\<lparr>commitment_GetRevealValue := \<lambda>jwk code. Inl ''no''\<rparr>)
       ''did:trustbloc:abc'' testConfig (testUpdateOpts\<lparr>RevealValue := ''rv''\<rparr>) =
     buildUpdateRequest testLib ''did:trustbloc:abc'' testConfig
       (testUpdateOpts\<lparr>RevealValue := ''rv''\<rparr>) \<and>
   snd (buildUpdateRequest testLib ''did:trustbloc:abc'' testConfig
       (testUpdateOpts\<lparr>RevealValue := ''rv''\<rparr>)) = [] \<and>
   buildRecoverRequest (testLib\<lparr>commitment_GetRevealValue := \<lambda>jwk code. Inl ''no''\<rparr>)
       ''did:trustbloc:abc'' testConfig (testRecoverOpts\<lparr>RevealValue := ''rv''\<rparr>) =
     buildRecoverRequest testLib ''did:trustbloc:abc'' testConfig
       (testRecoverOpts\<lparr>RevealValue := ''rv''\<rparr>) \<and>
   snd (buildRecoverRequest testLib ''did:trustbloc:abc'' testConfig
       (testRecoverOpts\<lparr>RevealValue := ''rv''\<rparr>)) = [] \<and>
   buildDeactivateRequest (testLib\<lparr>commitment_GetRevealValue := \<lambda>jwk code. Inl ''no''\<rparr>)
       ''did:trustbloc:abc'' testConfig (testDeactivateOpts\<lparr>RevealValue := ''rv''\<rparr>) =
     buildDeactivateRequest testLib ''did:trustbloc:abc'' testConfig
       (testDeactivateOpts\<lparr>RevealValue := ''rv''\<rparr>) \<and>
   snd (buildDeactivateRequest testLib ''did:trustbloc:abc'' testConfig
       (testDeactivateOpts\<lparr>RevealValue := ''rv''\<rparr>)) = []"
proof -
  have f: "commitment_GetRevealValue testLib (JWK ''EC'' ''P-256'' ''7'' ''9'') 5 =
      Inl ''algorithm not supported''"
    by (simp add: testLib_def)
  have s: "commitment_GetRevealValue testLib (JWK ''EC'' ''P-256'' ''7'' ''9'') 18 =
      Inr ''reveal-P-256-7-9''"
    by (simp add: testLib_def)
  have u: "RevealValue (testUpdateOpts\<lparr>RevealValue := ''rv''\<rparr>) \<noteq> ''''"
    and r: "RevealValue (testRecoverOpts\<lparr>RevealValue := ''rv''\<rparr>) \<noteq> ''''"
    and d: "RevealValue (testDeactivateOpts\<lparr>RevealValue := ''rv''\<rparr>) \<noteq> ''''"
    by simp_all
  note a = defaultRevealValue_soft_fail [where l = testLib
      and jwk = "JWK ''EC'' ''P-256'' ''7'' ''9''" and code = 5
      and g = "\<lambda>jwk code. Inl ''no''" and did = "''did:trustbloc:abc''" and cfg = testConfig
      and uopts = "testUpdateOpts\<lparr>RevealValue := ''rv''\<rparr>"
      and ropts = "testRecoverOpts\<lparr>RevealValue := ''rv''\<rparr>"
      and dopts = "testDeactivateOpts\<lparr>RevealValue := ''rv''\<rparr>"]
  note b = defaultRevealValue_soft_fail [where l = testLib
      and jwk = "JWK ''EC'' ''P-256'' ''7'' ''9''" and code = 18]
  from a f have 1: "defaultRevealValue testLib (JWK ''EC'' ''P-256'' ''7'' ''9'') 5 =
     ('''', [LogError ''Failed to default reveal value: algorithm not supported''])"
    by simp
  from b s have 2: "defaultRevealValue testLib (JWK ''EC'' ''P-256'' ''7'' ''9'') 18 =
     (''reveal-P-256-7-9'', [])"
    by blast
  from a u r d 1 2 show ?thesis by blast
qed

subsection \<open>Patch assembly\<close>

text \<open>
  A category's patch is made in two steps (three for added keys): the collection is
  serialized, then wrapped into a patch. The category fails with the error of the first
  step that fails.
\<close>

lemma create_patch_steps:
  "createRemovePublicKeysPatch l opts =
     (case json_Marshal_strings l (RemovePublicKeys opts) of
        Inl err \<Rightarrow> Inl err | Inr s \<Rightarrow> patch_NewRemovePublicKeysPatch l s)"
  "createRemoveServicesPatch l opts =
     (case json_Marshal_strings l (RemoveServices opts) of
        Inl err \<Rightarrow> Inl err | Inr s \<Rightarrow> patch_NewRemoveServiceEndpointsPatch l s)"
  "createAddServicesPatch l opts =
     (case json_Marshal_raw l (doc_PopulateRawServices l (AddServices opts)) of
        Inl err \<Rightarrow> Inl err | Inr s \<Rightarrow> patch_NewAddServiceEndpointsPatch l s)"
  "createAddPublicKeysPatch l opts =
     (case doc_PopulateRawPublicKeys l (AddPublicKeys opts) of
        Inl err \<Rightarrow> Inl err
      | Inr raw \<Rightarrow>
          (case json_Marshal_raw l raw of
             Inl err \<Rightarrow> Inl err | Inr s \<Rightarrow> patch_NewAddPublicKeysPatch l s))"
  by (simp_all add: createRemovePublicKeysPatch_def createRemoveServicesPatch_def
      createAddServicesPatch_def createAddPublicKeysPatch_def)

text \<open>
  C2. The assembler returns a list of patches exactly when no category with a non-empty
  collection fails. The list is then the concatenation, in the order remove-public-keys,
  remove-services, add-services, add-public-keys, of one part for each category: empty
  when the category's collection is empty, and otherwise the one patch made for it. The
  assembler returns an error exactly when that error is the one of the first category, in
  the same order, whose collection is not empty and whose patch could not be made
  (\<open>create_patch_steps\<close>: its serialization or its patch construction failed); later
  categories are not attempted.
\<close>

theorem createUpdatePatches_categories:
  "(\<forall>patches. createUpdatePatches l opts = Inr patches \<longleftrightarrow>
      (\<exists>rk rs as ak. patches = rk @ rs @ as @ ak \<and>
         (if RemovePublicKeys opts = [] then rk = []
          else \<exists>p. createRemovePublicKeysPatch l opts = Inr p \<and> rk = [p]) \<and>
         (if RemoveServices opts = [] then rs = []
          else \<exists>p. createRemoveServicesPatch l opts = Inr p \<and> rs = [p]) \<and>
         (if AddServices opts = [] then as = []
          else \<exists>p. createAddServicesPatch l opts = Inr p \<and> as = [p]) \<and>
         (if AddPublicKeys opts = [] then ak = []
          else \<exists>p. createAddPublicKeysPatch l opts = Inr p \<and> ak = [p]))) \<and>
   (\<forall>err. createUpdatePatches l opts = Inl err \<longleftrightarrow>
      (RemovePublicKeys opts \<noteq> [] \<and> createRemovePublicKeysPatch l opts = Inl err) \<or>
      (\<not> (RemovePublicKeys opts \<noteq> [] \<and> isl (createRemovePublicKeysPatch l opts)) \<and>
       ((RemoveServices opts \<noteq> [] \<and> createRemoveServicesPatch l opts = Inl err) \<or>
        (\<not> (RemoveServices opts \<noteq> [] \<and> isl (createRemoveServicesPatch l opts)) \<and>
         ((AddServices opts \<noteq> [] \<and> createAddServicesPatch l opts = Inl err) \<or>
          (\<not> (AddServices opts \<noteq> [] \<and> isl (createAddServicesPatch l opts)) \<and>
           AddPublicKeys opts \<noteq> [] \<and> createAddPublicKeysPatch l opts = Inl err))))))"
proof (intro conjI allI)
  fix patches
  show "createUpdatePatches l opts = Inr patches \<longleftrightarrow>
      (\<exists>rk rs as ak. patches = rk @ rs @ as @ ak \<and>
         (if RemovePublicKeys opts = [] then rk = []
          else \<exists>p. createRemovePublicKeysPatch l opts = Inr p \<and> rk = [p]) \<and>
         (if RemoveServices opts = [] then rs = []
          else \<exists>p. createRemoveServicesPatch l opts = Inr p \<and> rs = [p]) \<and>
         (if AddServices opts = [] then as = []
          else \<exists>p. createAddServicesPatch l opts = Inr p \<and> as = [p]) \<and>
         (if AddPublicKeys opts = [] then ak = []
          else \<exists>p. createAddPublicKeysPatch l opts = Inr p \<and> ak = [p]))"
    by (auto simp add: createUpdatePatches_def split: sum.splits if_splits)
next
  fix err
  show "createUpdatePatches l opts = Inl err \<longleftrightarrow>
      (RemovePublicKeys opts \<noteq> [] \<and> createRemovePublicKeysPatch l opts = Inl err) \<or>
      (\<not> (RemovePublicKeys opts \<noteq> [] \<and> isl (createRemovePublicKeysPatch l opts)) \<and>
       ((RemoveServices opts \<noteq> [] \<and> createRemoveServicesPatch l opts = Inl err) \<or>
        (\<not> (RemoveServices opts \<noteq> [] \<and> isl (createRemoveServicesPatch l opts)) \<and>
         ((AddServices opts \<noteq> [] \<and> createAddServicesPatch l opts = Inl err) \<or>
          (\<not> (AddServices opts \<noteq> [] \<and> isl (createAddServicesPatch l opts)) \<and>
           AddPublicKeys opts \<noteq> [] \<and> createAddPublicKeysPatch l opts = Inl err)))))"
    by (auto simp add: createUpdatePatches_def split: sum.splits if_splits)
qed

text \<open>
  The theorem at two concrete options values: one with keys to remove and services to
  add (two patches, in that order), and the same with a key to add whose type tag is
  missing, so that the fourth category fails after the first and the third were made.
\<close>

theorem createUpdatePatches_categories_witness:
  "createUpdatePatches testLib testUpdateOpts =
     Inr [Patch ''remove-public-keys'' ''[key2,]'',
          Patch ''add-services'' ''[{id:svc1,type:hub,serviceEndpoint:https://hub,},]''] \<and>
   createUpdatePatches testLib
     (testUpdateOpts\<lparr>AddPublicKeys :=
        [\<lparr>ID = ''k3'', Type = '''', Recovery = False, Update = False, Value = ''raw''\<rparr>]\<rparr>) =
     Inl ''invalid key type: ''"
proof -
  let ?bad = "testUpdateOpts\<lparr>AddPublicKeys :=
        [\<lparr>ID = ''k3'', Type = '''', Recovery = False, Update = False, Value = ''raw''\<rparr>]\<rparr>"
  have rk: "createRemovePublicKeysPatch testLib testUpdateOpts =
      Inr (Patch ''remove-public-keys'' ''[key2,]'')"
    and rk': "createRemovePublicKeysPatch testLib ?bad =
      Inr (Patch ''remove-public-keys'' ''[key2,]'')"
    by (simp_all add: createRemovePublicKeysPatch_def testLib_def testUpdateOpts_def)
  have as: "createAddServicesPatch testLib testUpdateOpts =
      Inr (Patch ''add-services'' ''[{id:svc1,type:hub,serviceEndpoint:https://hub,},]'')"
    and as': "createAddServicesPatch testLib ?bad =
      Inr (Patch ''add-services'' ''[{id:svc1,type:hub,serviceEndpoint:https://hub,},]'')"
    by (simp_all add: createAddServicesPatch_def testLib_def testUpdateOpts_def)
  have ak': "createAddPublicKeysPatch testLib ?bad = Inl ''invalid key type: ''"
    by (simp add: createAddPublicKeysPatch_def testLib_def testUpdateOpts_def)
  have e: "RemovePublicKeys testUpdateOpts \<noteq> []" "RemoveServices testUpdateOpts = []"
    "AddServices testUpdateOpts \<noteq> []" "AddPublicKeys testUpdateOpts = []"
    by (simp_all add: testUpdateOpts_def)
  have e': "RemovePublicKeys ?bad \<noteq> []" "RemoveServices ?bad = []"
    "AddServices ?bad \<noteq> []" "AddPublicKeys ?bad \<noteq> []"
    by (simp_all add: testUpdateOpts_def)
  have 1: "createUpdatePatches testLib testUpdateOpts =
     Inr [Patch ''remove-public-keys'' ''[key2,]'',
          Patch ''add-services'' ''[{id:svc1,type:hub,serviceEndpoint:https://hub,},]'']"
    using createUpdatePatches_categories [of testLib testUpdateOpts] rk as e by simp
  have 2: "createUpdatePatches testLib ?bad = Inl ''invalid key type: ''"
    using createUpdatePatches_categories [of testLib ?bad] rk' as' ak' e' by simp
  from 1 2 show ?thesis by simp
qed

subsection \<open>Unique suffix\<close>

text \<open>
  C3. When the identifier contains a colon, \<open>getUniqueSuffix\<close> returns what follows the
  last colon: the identifier splits into a prefix, a colon and a suffix without colon, and
  the suffix is returned. When the identifier contains no colon, it returns an error. The
  two examples of the specification are instances.
\<close>

theorem getUniqueSuffix_last_colon:
  "(CHR '':'' \<in> set did \<longrightarrow>
      (\<exists>pre suf. did = pre @ '':'' @ suf \<and> CHR '':'' \<notin> set suf \<and>
         getUniqueSuffix did = Inr suf)) \<and>
   (CHR '':'' \<notin> set did \<longrightarrow>
      getUniqueSuffix did = Inl (''unique suffix not provided in id ['' @ did @ '']'')) \<and>
   getUniqueSuffix ''did:method:abc123'' = Inr ''abc123'' \<and>
   getUniqueSuffix ''noColonHere'' =
     Inl ''unique suffix not provided in id [noColonHere]''"
proof (intro conjI impI)
  assume "CHR '':'' \<in> set did"
  then obtain pre suf where d: "did = pre @ CHR '':'' # suf" and n: "CHR '':'' \<notin> set suf"
    using split_list_last by fastforce
  from n have "getUniqueSuffix (pre @ CHR '':'' # suf) = Inr suf"
    by (rule getUniqueSuffix_last)
  with d n show "\<exists>pre suf. did = pre @ '':'' @ suf \<and> CHR '':'' \<notin> set suf \<and>
         getUniqueSuffix did = Inr suf"
    by auto
next
  assume "CHR '':'' \<notin> set did"
  then show "getUniqueSuffix did = Inl (''unique suffix not provided in id ['' @ did @ '']'')"
    by (rule getUniqueSuffix_absent)
next
  show "getUniqueSuffix ''did:method:abc123'' = Inr ''abc123''"
    using getUniqueSuffix_last [of "''abc123''" "''did:method''"] by simp
next
  show "getUniqueSuffix ''noColonHere'' =
     Inl ''unique suffix not provided in id [noColonHere]''"
    by (simp add: getUniqueSuffix_absent)
qed

theorem getUniqueSuffix_last_colon_witness:
  "(\<exists>pre suf. ''did:trustbloc:testnet:xyz'' = pre @ '':'' @ suf \<and> CHR '':'' \<notin> set suf \<and>
       getUniqueSuffix ''did:trustbloc:testnet:xyz'' = Inr suf) \<and>
   getUniqueSuffix ''xyz'' = Inl ''unique suffix not provided in id [xyz]''"
  using getUniqueSuffix_last_colon [of "''did:trustbloc:testnet:xyz''"]
    getUniqueSuffix_last_colon [of "''xyz''"]
  by simp

subsection \<open>Signer adapter\<close>

lemma getSigner_derivation_error:
  "pubkey_GetPublicKeyJWK l (Some (EcdsaPublicKey (PublicKey eckey))) = Inl err \<Longrightarrow>
   getSigner l (Some (EcdsaPrivateKey eckey)) keyID = Inl (Error err)"
  by simp

lemma getSigner_panics:
  "getSigner l (Some NilEcdsaPrivateKey) keyID =
     Inl (Panic ''runtime error: invalid memory address or nil pointer dereference'')"
  "length edkey < 32 \<Longrightarrow>
   getSigner l (Some (Ed25519PrivateKey edkey)) keyID =
     Inl (Panic ''runtime error: slice bounds out of range'')"
  by (simp_all add: ed25519_Public_def)

lemma ed25519_Public_64: "length priv = 64 \<Longrightarrow> ed25519_Public priv = Inr (drop 32 priv)"
  by (simp add: ed25519_Public_def)

text \<open>
  C4. For every valid P-256 private key, that is an ECDSA key on the curve P-256 whose
  public JWK the library derives, \<open>getSigner\<close> returns a signer with the algorithm tag
  \<open>ES256\<close> and that public JWK. For every valid Ed25519 private key, that is a key of
  64 bytes whose public half (its last 32 bytes) has a public JWK, it returns a signer with
  the algorithm tag \<open>EdDSA\<close> and that public JWK. For a private key of any other
  concrete type it returns the error \<open>key not supported\<close>.
\<close>

theorem getSigner_by_key_type:
  "(\<forall>jwk. Curve (PublicKey eckey) = ''P-256'' \<and>
      pubkey_GetPublicKeyJWK l (Some (EcdsaPublicKey (PublicKey eckey))) = Inr jwk \<longrightarrow>
      getSigner l (Some (EcdsaPrivateKey eckey)) keyID =
        Inr (ecsigner_New eckey ''ES256'' keyID, jwk) \<and>
      algorithm (ecsigner_New eckey ''ES256'' keyID) = ''ES256'') \<and>
   (\<forall>jwk. length edkey = 64 \<and>
      pubkey_GetPublicKeyJWK l (Some (Ed25519PublicKey (drop 32 edkey))) = Inr jwk \<longrightarrow>
      getSigner l (Some (Ed25519PrivateKey edkey)) keyID =
        Inr (edsigner_New edkey ''EdDSA'' keyID, jwk) \<and>
      algorithm (edsigner_New edkey ''EdDSA'' keyID) = ''EdDSA'') \<and>
   getSigner l (Some (OtherPrivateKey ty)) keyID = Inl (Error ''key not supported'')"
  by (simp add: ed25519_Public_64)

text \<open>
  The theorem at a P-256 key, at an Ed25519 key of 32 seed bytes followed by 32 bytes of
  public key, and at a key of another type.
\<close>

theorem getSigner_by_key_type_witness:
  "getSigner testLib (Some (EcdsaPrivateKey testEcKey)) ''key1'' =
     Inr (ecsigner_New testEcKey ''ES256'' ''key1'', JWK ''EC'' ''P-256'' ''7'' ''9'') \<and>
   algorithm (ecsigner_New testEcKey ''ES256'' ''key1'') = ''ES256'' \<and>
   getSigner testLib
     (Some (Ed25519PrivateKey (replicate 32 CHR ''s'' @ replicate 32 CHR ''p''))) ''key1'' =
     Inr (edsigner_New (replicate 32 CHR ''s'' @ replicate 32 CHR ''p'') ''EdDSA'' ''key1'',
          JWK ''OKP'' ''Ed25519'' (replicate 32 CHR ''p'') '''') \<and>
   getSigner testLib (Some (OtherPrivateKey ''*rsa.PrivateKey'')) ''key1'' =
     Inl (Error ''key not supported'')"
proof -
  have c: "Curve (PublicKey testEcKey) = ''P-256''"
    by (simp add: testEcKey_def)
  have e: "pubkey_GetPublicKeyJWK testLib (Some (EcdsaPublicKey (PublicKey testEcKey))) =
      Inr (JWK ''EC'' ''P-256'' ''7'' ''9'')"
    by (simp add: testLib_def testEcKey_def showInt_def)
  have n: "length (replicate 32 CHR ''s'' @ replicate 32 CHR ''p'') = 64"
    by simp
  have d: "pubkey_GetPublicKeyJWK testLib
      (Some (Ed25519PublicKey (drop 32 (replicate 32 CHR ''s'' @ replicate 32 CHR ''p'')))) =
      Inr (JWK ''OKP'' ''Ed25519'' (replicate 32 CHR ''p'') '''')"
    by (simp add: testLib_def)
  from getSigner_by_key_type [where l = testLib and eckey = testEcKey
      and keyID = "''key1''" and edkey = "replicate 32 CHR ''s'' @ replicate 32 CHR ''p''"
      and ty = "''*rsa.PrivateKey''"] c e n d
  show ?thesis by blast
qed

text \<open>
  The error for a key of another type, here an RSA key, reads \<open>key not supported\<close>; it
  is not \<open>unsupported key\<close>.
\<close>

theorem getSigner_counterexample:
  "getSigner testLib (Some (OtherPrivateKey ''*rsa.PrivateKey'')) ''key1'' =
     Inl (Error ''key not supported'') \<and>
   getSigner testLib (Some (OtherPrivateKey ''*rsa.PrivateKey'')) ''key1'' \<noteq>
     Inl (Error ''unsupported key'')"
  by simp

subsection \<open>Unwrapping the keys of a recover request\<close>

lemma unwrapPubKeyJWK_Inr:
  "unwrapPubKeyJWK l key = Inr parsed \<longleftrightarrow>
     (case jose_UnmarshalJSON l (Value key) of
        Inl err \<Rightarrow> parsed = key
      | Inr jwk \<Rightarrow> doc_GetValueFromJWK l key (jose_Public l jwk) = Inr parsed)"
  by (auto simp add: unwrapPubKeyJWK_def split: sum.splits)

lemma unwrapPubKeyJWK_isl:
  "isl (unwrapPubKeyJWK l key) \<longleftrightarrow>
     (\<exists>jwk. jose_UnmarshalJSON l (Value key) = Inr jwk \<and>
        isl (doc_GetValueFromJWK l key (jose_Public l jwk)))"
  by (auto simp add: unwrapPubKeyJWK_def split: sum.splits)

lemma unwrapKeys_Inr:
  "unwrapKeys l ks acc = Inr out \<Longrightarrow>
   \<exists>ks'. out = acc @ ks' \<and>
     list_all2 (\<lambda>key parsed.
        case jose_UnmarshalJSON l (Value key) of
          Inl err \<Rightarrow> parsed = key
        | Inr jwk \<Rightarrow> doc_GetValueFromJWK l key (jose_Public l jwk) = Inr parsed) ks ks'"
proof (induction ks arbitrary: acc out)
  case Nil
  then show ?case by simp
next
  case (Cons key ks)
  from Cons.prems obtain parsed where
    p: "unwrapPubKeyJWK l key = Inr parsed" and
    r: "unwrapKeys l ks (acc @ [parsed]) = Inr out"
    by (auto split: sum.splits)
  from Cons.IH [OF r] obtain ks' where
    o: "out = (acc @ [parsed]) @ ks'" and
    a: "list_all2 (\<lambda>key parsed.
        case jose_UnmarshalJSON l (Value key) of
          Inl err \<Rightarrow> parsed = key
        | Inr jwk \<Rightarrow> doc_GetValueFromJWK l key (jose_Public l jwk) = Inr parsed) ks ks'"
    by blast
  from p have "case jose_UnmarshalJSON l (Value key) of
          Inl err \<Rightarrow> parsed = key
        | Inr jwk \<Rightarrow> doc_GetValueFromJWK l key (jose_Public l jwk) = Inr parsed"
    by (simp add: unwrapPubKeyJWK_Inr)
  with o a show ?case
    by (intro exI [of _ "parsed # ks'"]) simp
qed

lemma unwrapKeys_isl:
  "isl (unwrapKeys l ks acc) \<longleftrightarrow> (\<exists>key \<in> set ks. isl (unwrapPubKeyJWK l key))"
proof (induction ks arbitrary: acc)
  case Nil
  then show ?case by simp
next
  case (Cons k ks)
  show ?case
  proof (cases "unwrapPubKeyJWK l k")
    case (Inl err)
    then show ?thesis by simp
  next
    case (Inr parsed)
    with Cons.IH [of "acc @ [parsed]"] show ?thesis by simp
  qed
qed

text \<open>
  C5. During Recover request building the supplied keys are unwrapped one by one. A
  request is built only from a document whose keys correspond, in order, to the supplied
  ones: a key whose value does not parse as a JWK is placed unchanged, and a key whose
  value parses as a JWK is replaced by what \<open>GetValueFromJWK\<close> makes of it from the JWK's
  public part. The unwrapping fails exactly when some supplied value parses as a JWK and
  its public value cannot be extracted, and then the whole build fails with an error. A
  value that does not parse never fails the build.
\<close>

theorem buildRecoverRequest_unwraps_keys:
  "(\<forall>req. fst (buildRecoverRequest l did cfg opts) = Inr req \<longrightarrow>
      (\<exists>parsedKeys info.
         list_all2 (\<lambda>key parsed.
            case jose_UnmarshalJSON l (Value key) of
              Inl err \<Rightarrow> parsed = key
            | Inr jwk \<Rightarrow> doc_GetValueFromJWK l key (jose_Public l jwk) = Inr parsed)
           (PublicKeys opts) parsedKeys \<and>
         doc_JSONBytes l \<lparr>doc_PublicKey = parsedKeys, doc_Service = Services opts\<rparr> =
           Inr (rec_OpaqueDocument info) \<and>
         client_NewRecoverRequest l info = Inr req)) \<and>
   (isl (unwrapKeys l (PublicKeys opts) []) \<longleftrightarrow>
      (\<exists>key \<in> set (PublicKeys opts). \<exists>jwk.
         jose_UnmarshalJSON l (Value key) = Inr jwk \<and>
         isl (doc_GetValueFromJWK l key (jose_Public l jwk)))) \<and>
   (isl (unwrapKeys l (PublicKeys opts) []) \<longrightarrow>
      (\<exists>err. buildRecoverRequest l did cfg opts = (Inl (Error err), [])))"
proof (intro conjI allI impI)
  fix req
  assume ok: "fst (buildRecoverRequest l did cfg opts) = Inr req"
  then obtain parsedKeys where u: "unwrapKeys l (PublicKeys opts) [] = Inr parsedKeys"
    by (cases "unwrapKeys l (PublicKeys opts) []") (simp_all add: buildRecoverRequest_def)
  from unwrapKeys_Inr [OF u] have rel: "list_all2 (\<lambda>key parsed.
            case jose_UnmarshalJSON l (Value key) of
              Inl err \<Rightarrow> parsed = key
            | Inr jwk \<Rightarrow> doc_GetValueFromJWK l key (jose_Public l jwk) = Inr parsed)
           (PublicKeys opts) parsedKeys"
    by simp
  from ok u obtain docBytes c1 c2 signer key suffix rv where
    j: "doc_JSONBytes l \<lparr>doc_PublicKey = parsedKeys, doc_Service = Services opts\<rparr> =
       Inr docBytes" and
    n: "client_NewRecoverRequest l
          \<lparr>rec_DidSuffix = suffix, rec_RevealValue = rv, rec_OpaqueDocument = docBytes,
           rec_RecoveryCommitment = c1, rec_UpdateCommitment = c2,
           rec_MultihashCode = MultiHashAlgorithm cfg, rec_Signer = signer,
           rec_RecoveryKey = key\<rparr> = Inr req"
    by (auto simp add: buildRecoverRequest_def split: sum.splits prod.splits)
  define info where "info =
          \<lparr>rec_DidSuffix = suffix, rec_RevealValue = rv, rec_OpaqueDocument = docBytes,
           rec_RecoveryCommitment = c1, rec_UpdateCommitment = c2,
           rec_MultihashCode = MultiHashAlgorithm cfg, rec_Signer = signer,
           rec_RecoveryKey = key\<rparr>"
  from j n have
    "doc_JSONBytes l \<lparr>doc_PublicKey = parsedKeys, doc_Service = Services opts\<rparr> =
       Inr (rec_OpaqueDocument info)"
    "client_NewRecoverRequest l info = Inr req"
    by (simp_all add: info_def)
  with rel show "\<exists>parsedKeys info.
         list_all2 (\<lambda>key parsed.
            case jose_UnmarshalJSON l (Value key) of
              Inl err \<Rightarrow> parsed = key
            | Inr jwk \<Rightarrow> doc_GetValueFromJWK l key (jose_Public l jwk) = Inr parsed)
           (PublicKeys opts) parsedKeys \<and>
         doc_JSONBytes l \<lparr>doc_PublicKey = parsedKeys, doc_Service = Services opts\<rparr> =
           Inr (rec_OpaqueDocument info) \<and>
         client_NewRecoverRequest l info = Inr req"
    by blast
next
  show "isl (unwrapKeys l (PublicKeys opts) []) \<longleftrightarrow>
      (\<exists>key \<in> set (PublicKeys opts). \<exists>jwk.
         jose_UnmarshalJSON l (Value key) = Inr jwk \<and>
         isl (doc_GetValueFromJWK l key (jose_Public l jwk)))"
    by (simp add: unwrapKeys_isl unwrapPubKeyJWK_isl)
next
  assume "isl (unwrapKeys l (PublicKeys opts) [])"
  then show "\<exists>err. buildRecoverRequest l did cfg opts = (Inl (Error err), [])"
    by (auto simp add: buildRecoverRequest_def isl_def)
qed

lemma getUniqueSuffix_abc: "getUniqueSuffix ''did:trustbloc:abc'' = Inr ''abc''"
  using getUniqueSuffix_last [of "''abc''" "''did:trustbloc''"] by simp

lemma testRecover_lib:
  "doc_JSONBytes testLib d =
     Inr (concat (map (\<lambda>k. ID k @ ''='' @ Value k @ '';'') (doc_PublicKey d)))"
  "defaultRevealValue testLib (JWK ''EC'' ''P-256'' ''7'' ''9'') (MultiHashAlgorithm testConfig) =
     (''reveal-P-256-7-9'', [])"
  "client_NewRecoverRequest testLib info =
     Inr (''recover:'' @ rec_DidSuffix info @ '':'' @ rec_RevealValue info @ '':'' @
          rec_OpaqueDocument info)"
  by (simp_all add: testLib_def testConfig_def defaultRevealValue_def)

lemma testRecover_opts:
  "getCommitment testLib testConfig (testRecoverOpts\<lparr>PublicKeys := ks\<rparr>) =
     Inr (''commit-Ed25519-nextrecovery-'', ''commit-Ed25519-nextupdate-'')"
  "getSigner testLib (SigningKey (testRecoverOpts\<lparr>PublicKeys := ks\<rparr>))
     (SigningKeyID (testRecoverOpts\<lparr>PublicKeys := ks\<rparr>)) =
     Inr (ecsigner_New testEcKey ''ES256'' ''key1'', JWK ''EC'' ''P-256'' ''7'' ''9'')"
  "RevealValue (testRecoverOpts\<lparr>PublicKeys := ks\<rparr>) = ''''"
  "Services (testRecoverOpts\<lparr>PublicKeys := ks\<rparr>) = []"
  by (simp_all add: testLib_def testConfig_def testRecoverOpts_def testEcKey_def
      getCommitment_def showInt_def)

text \<open>
  The theorem at the test options, whose first key value is the JWK \<open>{kty:OKP,x:abc}\<close>
  and whose second is raw bytes: the request is built from the document with the first
  value replaced by \<open>abc\<close>. With a symmetric key as JWK, unwrapping and build fail.
\<close>

theorem buildRecoverRequest_unwraps_keys_witness:
  "(\<exists>parsedKeys info.
      list_all2 (\<lambda>key parsed.
         case jose_UnmarshalJSON testLib (Value key) of
           Inl err \<Rightarrow> parsed = key
         | Inr jwk \<Rightarrow> doc_GetValueFromJWK testLib key (jose_Public testLib jwk) = Inr parsed)
        (PublicKeys testRecoverOpts) parsedKeys \<and>
      doc_JSONBytes testLib
        \<lparr>doc_PublicKey = parsedKeys, doc_Service = Services testRecoverOpts\<rparr> =
        Inr (rec_OpaqueDocument info) \<and>
      client_NewRecoverRequest testLib info =
        Inr ''recover:abc:reveal-P-256-7-9:k1=abc;k2=rawbytes;'') \<and>
   (\<exists>err. buildRecoverRequest testLib ''did:trustbloc:abc'' testConfig
      (testRecoverOpts\<lparr>PublicKeys :=
         [\<lparr>ID = ''k1'', Type = ''JwsVerificationKey2020'', Recovery = False, Update = False,
            Value = ''{kty:oct,k:abc}''\<rparr>]\<rparr>) = (Inl (Error err), []))"
proof -
  let ?sym = "testRecoverOpts\<lparr>PublicKeys :=
         [\<lparr>ID = ''k1'', Type = ''JwsVerificationKey2020'', Recovery = False, Update = False,
            Value = ''{kty:oct,k:abc}''\<rparr>]\<rparr>"
  have u: "unwrapKeys testLib (PublicKeys testRecoverOpts) [] =
      Inr [\<lparr>ID = ''k1'', Type = ''JwsVerificationKey2020'', Recovery = False, Update = False,
             Value = ''abc''\<rparr>,
           \<lparr>ID = ''k2'', Type = ''Ed25519VerificationKey2018'', Recovery = False,
             Update = False, Value = ''rawbytes''\<rparr>]"
    by (simp add: testRecoverOpts_def unwrapPubKeyJWK_def testLib_def)
  have b: "fst (buildRecoverRequest testLib ''did:trustbloc:abc'' testConfig testRecoverOpts) =
      Inr ''recover:abc:reveal-P-256-7-9:k1=abc;k2=rawbytes;''"
    using testRecover_opts [of "PublicKeys testRecoverOpts"] testRecover_lib
    by (simp add: buildRecoverRequest_def u getUniqueSuffix_abc)
  have k: "\<exists>key \<in> set (PublicKeys ?sym). \<exists>jwk.
         jose_UnmarshalJSON testLib (Value key) = Inr jwk \<and>
         isl (doc_GetValueFromJWK testLib key (jose_Public testLib jwk))"
    by (simp add: testLib_def)
  note t1 = buildRecoverRequest_unwraps_keys
    [of testLib "''did:trustbloc:abc''" testConfig testRecoverOpts]
  note t2 = buildRecoverRequest_unwraps_keys [of testLib "''did:trustbloc:abc''" testConfig ?sym]
  from t1 b have 1: "\<exists>parsedKeys info.
      list_all2 (\<lambda>key parsed.
         case jose_UnmarshalJSON testLib (Value key) of
           Inl err \<Rightarrow> parsed = key
         | Inr jwk \<Rightarrow> doc_GetValueFromJWK testLib key (jose_Public testLib jwk) = Inr parsed)
        (PublicKeys testRecoverOpts) parsedKeys \<and>
      doc_JSONBytes testLib
        \<lparr>doc_PublicKey = parsedKeys, doc_Service = Services testRecoverOpts\<rparr> =
        Inr (rec_OpaqueDocument info) \<and>
      client_NewRecoverRequest testLib info =
        Inr ''recover:abc:reveal-P-256-7-9:k1=abc;k2=rawbytes;''"
    by blast
  from t2 k have 2: "\<exists>err. buildRecoverRequest testLib ''did:trustbloc:abc'' testConfig ?sym =
      (Inl (Error err), [])"
    by blast
  from 1 2 show ?thesis by blast
qed

text \<open>
  A value that looks like a JWK but is cut short does not parse; the key is then taken for
  a binary key and placed in the document as it is, and the build succeeds.
\<close>

theorem malformed_jwk_value_is_kept:
  "buildRecoverRequest testLib ''did:trustbloc:abc'' testConfig
     (testRecoverOpts\<lparr>PublicKeys :=
        [\<lparr>ID = ''k1'', Type = ''JwsVerificationKey2020'', Recovery = False, Update = False,
           Value = ''{kty:OKP,x:abc''\<rparr>]\<rparr>) =
     (Inr ''recover:abc:reveal-P-256-7-9:k1={kty:OKP,x:abc;'', [])"
proof -
  have u: "unwrapPubKeyJWK testLib
      \<lparr>ID = ''k1'', Type = ''JwsVerificationKey2020'', Recovery = False, Update = False,
        Value = ''{kty:OKP,x:abc''\<rparr> =
      Inr \<lparr>ID = ''k1'', Type = ''JwsVerificationKey2020'', Recovery = False, Update = False,
            Value = ''{kty:OKP,x:abc''\<rparr>"
    by (simp add: unwrapPubKeyJWK_def testLib_def)
  show ?thesis
    using testRecover_opts [of "[\<lparr>ID = ''k1'', Type = ''JwsVerificationKey2020'',
        Recovery = False, Update = False, Value = ''{kty:OKP,x:abc''\<rparr>]"] testRecover_lib
    by (simp add: buildRecoverRequest_def u getUniqueSuffix_abc)
qed

subsection \<open>Required options\<close>

text \<open>
  C6. \<open>RecoverDID\<close> checks its three required keys before anything else, in the order
  next recovery key, next update key, signing key, and the first missing one decides the
  message. Without a next recovery key the error is
  \<open>next recovery public key is required\<close>; with it and without a next update key,
  \<open>next update public key is required\<close>; with both and without a signing key,
  \<open>signing key is required\<close>. Whenever one of the three is missing the operation
  fails with no event at all: no endpoint discovery, no configuration fetch, no request
  sent (nothing is logged either).
\<close>

theorem RecoverDID_required_keys:
  "(NextRecoveryPublicKey opts = None \<longrightarrow>
      RecoverDID l c did domain opts = (Some (Error ''next recovery public key is required''), [])) \<and>
   (NextRecoveryPublicKey opts \<noteq> None \<and> NextUpdatePublicKey opts = None \<longrightarrow>
      RecoverDID l c did domain opts = (Some (Error ''next update public key is required''), [])) \<and>
   (NextRecoveryPublicKey opts \<noteq> None \<and> NextUpdatePublicKey opts \<noteq> None \<and>
    SigningKey opts = None \<longrightarrow>
      RecoverDID l c did domain opts = (Some (Error ''signing key is required''), [])) \<and>
   (NextRecoveryPublicKey opts = None \<or> NextUpdatePublicKey opts = None \<or>
    SigningKey opts = None \<longrightarrow>
      (\<exists>err. RecoverDID l c did domain opts = (Some (Error err), [])))"
  by (simp add: RecoverDID_def validateRecoverReq_def)

theorem RecoverDID_required_keys_witness:
  "RecoverDID testLib testClient ''did:trustbloc:abc'' ''testnet''
     (testRecoverOpts\<lparr>NextRecoveryPublicKey := None\<rparr>) =
     (Some (Error ''next recovery public key is required''), []) \<and>
   RecoverDID testLib testClient ''did:trustbloc:abc'' ''testnet''
     (testRecoverOpts\<lparr>NextUpdatePublicKey := None\<rparr>) =
     (Some (Error ''next update public key is required''), []) \<and>
   RecoverDID testLib testClient ''did:trustbloc:abc'' ''testnet''
     (testRecoverOpts\<lparr>SigningKey := None\<rparr>) =
     (Some (Error ''signing key is required''), [])"
  using RecoverDID_required_keys [of "testRecoverOpts\<lparr>NextRecoveryPublicKey := None\<rparr>"
      testLib testClient "''did:trustbloc:abc''" "''testnet''"]
    RecoverDID_required_keys [of "testRecoverOpts\<lparr>NextUpdatePublicKey := None\<rparr>"
      testLib testClient "''did:trustbloc:abc''" "''testnet''"]
    RecoverDID_required_keys [of "testRecoverOpts\<lparr>SigningKey := None\<rparr>"
      testLib testClient "''did:trustbloc:abc''" "''testnet''"]
  by (simp add: testRecoverOpts_def)

text \<open>
  C7. \<open>UpdateDID\<close> checks the signing key and then the next update key before anything
  else, and the first missing one decides the message: without a signing key the error is
  \<open>signing public key is required\<close>; with it and without a next update key,
  \<open>next update public key is required\<close>. \<open>DeactivateDID\<close> without a signing key fails
  with \<open>signing key is required\<close>. In each case the operation returns at once: there is
  no event (no endpoint discovery, no configuration fetch, no request sent) and nothing is
  tried again.
\<close>

theorem UpdateDID_required_keys:
  "(SigningKey uopts = None \<longrightarrow>
      UpdateDID l c did domain uopts = (Some (Error ''signing public key is required''), [])) \<and>
   (SigningKey uopts \<noteq> None \<and> NextUpdatePublicKey uopts = None \<longrightarrow>
      UpdateDID l c did domain uopts = (Some (Error ''next update public key is required''), [])) \<and>
   (SigningKey uopts = None \<or> NextUpdatePublicKey uopts = None \<longrightarrow>
      (\<exists>err. UpdateDID l c did domain uopts = (Some (Error err), []))) \<and>
   (SigningKey dopts = None \<longrightarrow>
      DeactivateDID l c did domain dopts = (Some (Error ''signing key is required''), []))"
  by (simp add: UpdateDID_def DeactivateDID_def)

theorem UpdateDID_required_keys_witness:
  "UpdateDID testLib testClient ''did:trustbloc:abc'' ''testnet''
     (testUpdateOpts\<lparr>SigningKey := None\<rparr>) = (Some (Error ''signing public key is required''), []) \<and>
   UpdateDID testLib testClient ''did:trustbloc:abc'' ''testnet''
     (testUpdateOpts\<lparr>NextUpdatePublicKey := None\<rparr>) =
     (Some (Error ''next update public key is required''), []) \<and>
   DeactivateDID testLib testClient ''did:trustbloc:abc'' ''testnet''
     (testDeactivateOpts\<lparr>SigningKey := None\<rparr>) = (Some (Error ''signing key is required''), [])"
  using UpdateDID_required_keys [of "testUpdateOpts\<lparr>SigningKey := None\<rparr>"
      testLib testClient "''did:trustbloc:abc''" "''testnet''"
      "testDeactivateOpts\<lparr>SigningKey := None\<rparr>"]
    UpdateDID_required_keys [of "testUpdateOpts\<lparr>NextUpdatePublicKey := None\<rparr>"
      testLib testClient "''did:trustbloc:abc''" "''testnet''"]
  by (simp add: testUpdateOpts_def)

subsection \<open>Endpoint resolution\<close>

text \<open>
  C8. With an empty domain and an empty endpoint list \<open>getEndpoint\<close> fails with
  \<open>domain is empty and sidetree endpoints is empty\<close>. With an empty domain and a
  non-empty list it returns the URL of the first endpoint of the list, and discovery is
  not called (no event). With a non-empty domain discovery is called: when it returns a
  non-empty list, the result is the URL of its first endpoint; when it returns an error or
  an empty list, \<open>getEndpoint\<close> fails.
\<close>

theorem getEndpoint_cases:
  "getEndpoint c '''' [] = (Inl ''domain is empty and sidetree endpoints is empty'', []) \<and>
   getEndpoint c '''' (e # es) = (Inr (URL e), []) \<and>
   (domain \<noteq> '''' \<longrightarrow>
      (\<forall>d ds. endpointService_GetEndpoints c domain = Inr (d # ds) \<longrightarrow>
         getEndpoint c domain sidetreeEndpoints = (Inr (URL d), [GetEndpoints domain])) \<and>
      (\<forall>err. endpointService_GetEndpoints c domain = Inl err \<longrightarrow>
         getEndpoint c domain sidetreeEndpoints =
           (Inl (''failed to get endpoints: '' @ err), [GetEndpoints domain])) \<and>
      (endpointService_GetEndpoints c domain = Inr [] \<longrightarrow>
         getEndpoint c domain sidetreeEndpoints =
           (Inl ''list of endpoints is empty'', [GetEndpoints domain])))"
  by (simp add: getEndpoint_def)

theorem getEndpoint_cases_witness:
  "getEndpoint testClient ''testnet'' [] =
     (Inr ''https://discovered'', [GetEndpoints ''testnet'']) \<and>
   getEndpoint testClient ''othernet'' [] =
     (Inl ''failed to get endpoints: discovery failed'', [GetEndpoints ''othernet'']) \<and>
   getEndpoint testClient ''emptynet'' [] =
     (Inl ''list of endpoints is empty'', [GetEndpoints ''emptynet''])"
  using getEndpoint_cases [where c = testClient and domain = "''testnet''"
      and sidetreeEndpoints = "[]"]
    getEndpoint_cases [where c = testClient and domain = "''othernet''"
      and sidetreeEndpoints = "[]"]
    getEndpoint_cases [where c = testClient and domain = "''emptynet''"
      and sidetreeEndpoints = "[]"]
  by (simp add: testClient_def)

text \<open>
  C9. An explicit endpoint list bypasses discovery only when no domain is supplied: with
  an empty domain and a non-empty list the result is the URL of the first endpoint of the
  list and discovery is not called. When a domain is supplied, discovery is called and the
  explicit list is ignored: the outcome is the one for the empty list.
\<close>

theorem getEndpoint_explicit_list:
  "(domain = '''' \<longrightarrow>
      getEndpoint c domain (e # es) = (Inr (URL e), [])) \<and>
   (domain \<noteq> '''' \<longrightarrow>
      getEndpoint c domain (e # es) = getEndpoint c domain [] \<and>
      snd (getEndpoint c domain (e # es)) = [GetEndpoints domain])"
  by (auto simp add: getEndpoint_def split: sum.splits)

theorem getEndpoint_explicit_list_witness:
  "getEndpoint testClient '''' [\<lparr>URL = ''https://explicit''\<rparr>] = (Inr ''https://explicit'', []) \<and>
   getEndpoint testClient ''testnet'' [\<lparr>URL = ''https://explicit''\<rparr>] =
     getEndpoint testClient ''testnet'' [] \<and>
   snd (getEndpoint testClient ''testnet'' [\<lparr>URL = ''https://explicit''\<rparr>]) =
     [GetEndpoints ''testnet'']"
  using getEndpoint_explicit_list [of "''''" testClient "\<lparr>URL = ''https://explicit''\<rparr>" "[]"]
    getEndpoint_explicit_list [of "''testnet''" testClient "\<lparr>URL = ''https://explicit''\<rparr>" "[]"]
  by auto

text \<open>
  With the domain \<open>testnet\<close> and an explicit endpoint, discovery is called all the same
  and the endpoint it finds is the one returned.
\<close>

theorem explicit_endpoints_do_not_bypass_discovery:
  "getEndpoint testClient ''testnet'' [\<lparr>URL = ''https://explicit''\<rparr>] =
     (Inr ''https://discovered'', [GetEndpoints ''testnet''])"
  by (simp add: getEndpoint_def testClient_def)

subsection \<open>An empty unique suffix\<close>





end
